theory Spec2Isabelle
  imports Complex_Main "HOL-Library.Sublist"
begin

section \<open>EventEmitter (utils/EventEmitter.js)\<close>

text \<open>
  A listener is the object \<^verbatim>\<open>{ callback, once, priority }\<close> that \<^verbatim>\<open>on\<close> builds.
  A callback is an opaque JavaScript function; the model keeps its identity (a number)
  and records an invocation by appending that identity to a call trace. Callbacks are
  taken not to call back into the emitter while \<^verbatim>\<open>emit\<close> runs.
  The table \<^verbatim>\<open>this.events\<close> is a \<^verbatim>\<open>Map\<close> from event names to listener arrays.
\<close>

record listener =
  callback :: nat
  once :: bool
  priority :: int

record options =
  opt_once :: "bool option"
  opt_priority :: "int option"

type_synonym events = "string \<rightharpoonup> listener list"

text \<open>
  \<^verbatim>\<open>array.sort((a, b) => b.priority - a.priority)\<close>: a stable sort (ECMAScript 2019)
  that puts higher priorities first, that is, sorts by ascending negated priority.
\<close>

definition sort_by_priority :: "listener list \<Rightarrow> listener list" where
  "sort_by_priority ls = sort_key (\<lambda>l. - priority l) ls"

text \<open>\<^verbatim>\<open>options.once || false\<close>, \<^verbatim>\<open>options.priority || 0\<close>.\<close>

definition mk_listener :: "nat \<Rightarrow> options \<Rightarrow> listener" where
  "mk_listener cb opts =
     \<lparr> callback = cb,
       once = (case opt_once opts of None \<Rightarrow> False | Some b \<Rightarrow> b),
       priority = (case opt_priority opts of None \<Rightarrow> 0 | Some p \<Rightarrow> p) \<rparr>"

definition on :: "events \<Rightarrow> string \<Rightarrow> nat \<Rightarrow> options \<Rightarrow> events" where
  "on evs event cb opts =
     (let existing = (case evs event of None \<Rightarrow> [] | Some ls \<Rightarrow> ls);
          pushed = existing @ [mk_listener cb opts]
      in evs(event \<mapsto> sort_by_priority pushed))"

text \<open>\<^verbatim>\<open>listeners.splice(i, 1)\<close> on the live array.\<close>

definition splice1 :: "nat \<Rightarrow> 'a list \<Rightarrow> 'a list" where
  "splice1 i xs = take i xs @ drop (Suc i) xs"

text \<open>
  The loop of \<^verbatim>\<open>emit\<close>: \<^verbatim>\<open>for (let i = listeners.length - 1; i >= 0; i--)\<close> over the
  copy \<^verbatim>\<open>listeners\<close>; the counter of the model is \<open>i + 1\<close>. Each round calls
  \<^verbatim>\<open>listeners[i].callback\<close> and, for a once-listener, splices index \<open>i\<close> out of the
  live array.
\<close>

fun emit_loop :: "listener list \<Rightarrow> nat \<Rightarrow> listener list \<Rightarrow> nat list \<Rightarrow> listener list \<times> nat list" where
  "emit_loop listeners 0 live calls = (live, calls)"
| "emit_loop listeners (Suc i) live calls =
     (let l = listeners ! i;
          calls' = calls @ [callback l];
          live' = (if once l then splice1 i live else live)
      in emit_loop listeners i live' calls')"

definition emit :: "events \<Rightarrow> string \<Rightarrow> events \<times> nat list" where
  "emit evs event =
     (case evs event of
        None \<Rightarrow> (evs, [])
      | Some ls \<Rightarrow>
          (case emit_loop ls (length ls) ls [] of
             (live, calls) \<Rightarrow> (evs(event \<mapsto> live), calls)))"

definition no_options :: options where
  "no_options = \<lparr> opt_once = None, opt_priority = None \<rparr>"

definition with_priority :: "int \<Rightarrow> options" where
  "with_priority p = \<lparr> opt_once = None, opt_priority = Some p \<rparr>"

section \<open>JavaScript numbers\<close>

text \<open>
  A JavaScript number is an IEEE 754 double: a finite value, \<^verbatim>\<open>NaN\<close> or an infinity.
  \<open>Num x\<close> stands for the finite double whose value is the real \<open>x\<close>; the two zeros are
  not told apart. \<open>to_double\<close> rounds a real to the nearest double, ties to the even
  significand: the unit in the last place is \<open>2\<close> to the power \<open>e - 52\<close> for the binade
  \<open>e\<close> of the value (at least \<open>-1022\<close>, where the subnormal range begins), and a result
  of magnitude \<open>2 ^ 1024\<close> or more is an infinity. Every arithmetic operation returns the
  rounded exact result.
\<close>

datatype number = Num real | NaN | PosInfinity | NegInfinity

definition round_half_even :: "real \<Rightarrow> int" where
  "round_half_even y =
     (let f = \<lfloor>y\<rfloor>
      in if y - of_int f < 1/2 then f
         else if 1/2 < y - of_int f then f + 1
         else if even f then f else f + 1)"

definition to_double :: "real \<Rightarrow> number" where
  "to_double x =
     (if x = 0 then Num 0
      else
        (let a = \<bar>x\<bar>;
             e = max \<lfloor>log 2 a\<rfloor> (-1022);
             ulp = 2 powi (e - 52);
             r = of_int (round_half_even (a / ulp)) * ulp
         in if 2 ^ 1024 \<le> r then (if x < 0 then NegInfinity else PosInfinity)
            else Num (if x < 0 then - r else r)))"

fun nneg :: "number \<Rightarrow> number" where
  "nneg (Num x) = Num (- x)"
| "nneg NaN = NaN"
| "nneg PosInfinity = NegInfinity"
| "nneg NegInfinity = PosInfinity"

text \<open>\<^verbatim>\<open>a + b\<close> and \<^verbatim>\<open>a - b\<close>.\<close>

fun nadd :: "number \<Rightarrow> number \<Rightarrow> number" where
  "nadd (Num x) (Num y) = to_double (x + y)"
| "nadd NaN b = NaN"
| "nadd a NaN = NaN"
| "nadd PosInfinity NegInfinity = NaN"
| "nadd NegInfinity PosInfinity = NaN"
| "nadd PosInfinity b = PosInfinity"
| "nadd NegInfinity b = NegInfinity"
| "nadd (Num x) b = b"

definition nsub :: "number \<Rightarrow> number \<Rightarrow> number" where
  "nsub a b = nadd a (nneg b)"

text \<open>\<^verbatim>\<open>a * b\<close>: an infinity times zero is \<^verbatim>\<open>NaN\<close>.\<close>

fun nmul :: "number \<Rightarrow> number \<Rightarrow> number" where
  "nmul (Num x) (Num y) = to_double (x * y)"
| "nmul NaN b = NaN"
| "nmul a NaN = NaN"
| "nmul (Num x) b = (if x = 0 then NaN else if 0 < x then b else nneg b)"
| "nmul a (Num y) = (if y = 0 then NaN else if 0 < y then a else nneg a)"
| "nmul PosInfinity b = b"
| "nmul NegInfinity b = nneg b"

text \<open>
  \<^verbatim>\<open>a / b\<close>. A zero divisor is taken as the positive zero: a positive dividend gives
  \<^verbatim>\<open>Infinity\<close>, a negative one \<^verbatim>\<open>-Infinity\<close>, and zero gives \<^verbatim>\<open>NaN\<close>.
\<close>

fun ndiv :: "number \<Rightarrow> number \<Rightarrow> number" where
  "ndiv (Num x) (Num y) =
     (if y = 0 then (if x = 0 then NaN else if 0 < x then PosInfinity else NegInfinity)
      else to_double (x / y))"
| "ndiv NaN b = NaN"
| "ndiv a NaN = NaN"
| "ndiv (Num x) b = Num 0"
| "ndiv a (Num y) = (if 0 \<le> y then a else nneg a)"
| "ndiv a b = NaN"

text \<open>\<^verbatim>\<open>a < b\<close>: false when either side is \<^verbatim>\<open>NaN\<close>.\<close>

fun nlt :: "number \<Rightarrow> number \<Rightarrow> bool" where
  "nlt (Num x) (Num y) = (x < y)"
| "nlt NaN b = False"
| "nlt a NaN = False"
| "nlt a NegInfinity = False"
| "nlt NegInfinity b = True"
| "nlt PosInfinity b = False"
| "nlt (Num x) PosInfinity = True"

text \<open>\<^verbatim>\<open>Math.min(a, b)\<close>: \<^verbatim>\<open>NaN\<close> when either argument is.\<close>

definition nmin :: "number \<Rightarrow> number \<Rightarrow> number" where
  "nmin a b = (if a = NaN \<or> b = NaN then NaN else if nlt b a then b else a)"

text \<open>
  \<^verbatim>\<open>Math.pow(x, 3)\<close>. The standard fixes the result for a zero, an infinity and
  \<^verbatim>\<open>NaN\<close>; for any other base it is an approximation the implementation chooses,
  here the parameter \<open>approx\<close>.
\<close>

fun pow3 :: "(real \<Rightarrow> number) \<Rightarrow> number \<Rightarrow> number" where
  "pow3 approx (Num x) = (if x = 0 then Num 0 else approx x)"
| "pow3 approx NaN = NaN"
| "pow3 approx PosInfinity = PosInfinity"
| "pow3 approx NegInfinity = NegInfinity"

fun isNaN :: "number \<Rightarrow> bool" where
  "isNaN NaN = True"
| "isNaN n = False"

text \<open>\<^verbatim>\<open>x >= c\<close> and \<^verbatim>\<open>x <= c\<close> for a number \<open>x\<close> and a finite constant \<open>c\<close>.\<close>

fun ge_const :: "number \<Rightarrow> real \<Rightarrow> bool" where
  "ge_const (Num x) c = (x \<ge> c)"
| "ge_const NaN c = False"
| "ge_const PosInfinity c = True"
| "ge_const NegInfinity c = False"

fun le_const :: "number \<Rightarrow> real \<Rightarrow> bool" where
  "le_const (Num x) c = (x \<le> c)"
| "le_const NaN c = False"
| "le_const PosInfinity c = False"
| "le_const NegInfinity c = True"

section \<open>DataManager (data/DataManager.js)\<close>

text \<open>
  Latitudes, longitudes and times are JavaScript numbers; the model computes with exact
  reals, so the decimal bounds of the table below are the fractions written.
  An engagement record is opaque (\<open>'e\<close>). \<^verbatim>\<open>this.data.engagements\<close> is \<^verbatim>\<open>null\<close>
  before the data is loaded and after \<^verbatim>\<open>destroy\<close>; reading a property of
  \<^verbatim>\<open>null\<close> raises a \<^verbatim>\<open>TypeError\<close>.
\<close>

datatype error = TypeError

record bounds =
  latMin :: real
  latMax :: real
  lngMin :: real
  lngMax :: real

text \<open>
  The object literal \<^verbatim>\<open>countryBounds\<close>, in the order \<^verbatim>\<open>Object.entries\<close> lists its
  keys (insertion order).
\<close>

definition countryBounds :: "(string \<times> bounds) list" where
  "countryBounds =
     [ (''IND'', \<lparr> latMin = 6, latMax = 37, lngMin = 68, lngMax = 97 \<rparr>),
       (''SGP'', \<lparr> latMin = 11/10, latMax = 15/10, lngMin = 1036/10, lngMax = 104 \<rparr>),
       (''ARE'', \<lparr> latMin = 22, latMax = 265/10, lngMin = 51, lngMax = 57 \<rparr>),
       (''MYS'', \<lparr> latMin = 8/10, latMax = 75/10, lngMin = 99, lngMax = 120 \<rparr>),
       (''THA'', \<lparr> latMin = 55/10, latMax = 21, lngMin = 97, lngMax = 106 \<rparr>),
       (''IDN'', \<lparr> latMin = -11, latMax = 6, lngMin = 95, lngMax = 141 \<rparr>),
       (''PHL'', \<lparr> latMin = 4, latMax = 21, lngMin = 116, lngMax = 127 \<rparr>),
       (''HKG'', \<lparr> latMin = 221/10, latMax = 226/10, lngMin = 1138/10, lngMax = 1145/10 \<rparr>) ]"

text \<open>
  The object \<^verbatim>\<open>{ countryCode: country, ...record }\<close> that \<^verbatim>\<open>getEngagementByCoords\<close>
  returns is allocated by each call. JavaScript compares objects by identity, so the
  model gives every object the identity under which it was allocated; the allocator is
  a counter (\<open>heap_next\<close>) threaded through the calls.
\<close>

record 'e engagement_obj =
  oid :: nat
  countryCode :: string
  spread :: 'e

definition in_bounds :: "bounds \<Rightarrow> real \<Rightarrow> real \<Rightarrow> bool" where
  "in_bounds b lat lng =
     (lat \<ge> latMin b \<and> lat \<le> latMax b \<and> lng \<ge> lngMin b \<and> lng \<le> lngMax b)"

text \<open>
  The \<^verbatim>\<open>for ... of Object.entries(countryBounds)\<close> loop: the first box that holds
  the point returns, with the record or with \<^verbatim>\<open>null\<close>.
\<close>

fun coords_loop ::
  "(string \<rightharpoonup> 'e) option \<Rightarrow> nat \<Rightarrow> (string \<times> bounds) list \<Rightarrow> real \<Rightarrow> real
     \<Rightarrow> error + ('e engagement_obj option \<times> nat)" where
  "coords_loop engs h [] lat lng = Inr (None, h)"
| "coords_loop engs h ((country, b) # rest) lat lng =
     (if in_bounds b lat lng then
        (case engs of
           None \<Rightarrow> Inl TypeError
         | Some tbl \<Rightarrow>
             (case tbl country of
                None \<Rightarrow> Inr (None, h)
              | Some r \<Rightarrow> Inr (Some \<lparr> oid = h, countryCode = country, spread = r \<rparr>, Suc h)))
      else coords_loop engs h rest lat lng)"

text \<open>
  \<^verbatim>\<open>getEngagementByCoords(lat, lng, tolerance = 5)\<close>; the second argument of the model
  is the allocator, returned advanced when an object was built.
\<close>

definition getEngagementByCoords ::
  "(string \<rightharpoonup> 'e) option \<Rightarrow> nat \<Rightarrow> real \<Rightarrow> real \<Rightarrow> real
     \<Rightarrow> error + ('e engagement_obj option \<times> nat)" where
  "getEngagementByCoords engs h lat lng tolerance = coords_loop engs h countryBounds lat lng"

text \<open>\<^verbatim>\<open>getEngagements(countryCode)\<close>.\<close>

definition getEngagements :: "(string \<rightharpoonup> 'e) option \<Rightarrow> string \<Rightarrow> 'e option" where
  "getEngagements engs code = (case engs of None \<Rightarrow> None | Some tbl \<Rightarrow> tbl code)"

section \<open>Globe (core/Globe.js): hover and click\<close>

text \<open>
  A country value is either a GeoJSON feature (identity and \<^verbatim>\<open>properties.ISO_A3\<close>) or
  an engagement object; engagement records are taken to carry no \<^verbatim>\<open>properties\<close>
  field. The events a Globe emits are recorded in order, each with the ISO code of its
  payload where it has one.
\<close>

datatype 'e country = Feature nat string | Engagement "'e engagement_obj"

fun ident :: "'e country \<Rightarrow> nat" where
  "ident (Feature i isoCode) = i"
| "ident (Engagement e) = oid e"

text \<open>\<^verbatim>\<open>a !== b\<close> on values that are \<^verbatim>\<open>null\<close> or objects.\<close>

fun strict_neq :: "'e country option \<Rightarrow> 'e country option \<Rightarrow> bool" where
  "strict_neq None None = False"
| "strict_neq (Some a) (Some b) = (ident a \<noteq> ident b)"
| "strict_neq a b = True"

record vec3 =
  vx :: number
  vy :: number
  vz :: number

record tween =
  startPosition :: vec3
  targetPosition :: vec3
  targetLookAt :: vec3
  startTime :: real
  duration :: real

record camera =
  position :: vec3
  lookAt :: vec3

type_synonym emission = "string \<times> string option"

record 'e globe =
  hoveredCountry :: "'e country option"
  selectedCountry :: "'e country option"
  scene_camera :: "camera option"
  raf_queue :: "tween list"
  emitted :: "emission list"
  heap_next :: nat

definition emit_event :: "string \<Rightarrow> string option \<Rightarrow> 'e globe \<Rightarrow> 'e globe" where
  "emit_event name isoCode g = g\<lparr> emitted := emitted g @ [(name, isoCode)] \<rparr>"

text \<open>\<^verbatim>\<open>handleCountryHover(country, prevCountry)\<close>. A non-empty string is truthy.\<close>

definition handleCountryHover ::
  "(string \<rightharpoonup> 'e) option \<Rightarrow> 'e country option \<Rightarrow> 'e country option \<Rightarrow> 'e globe \<Rightarrow> 'e globe" where
  "handleCountryHover engs country prevCountry g =
     (let g1 = g\<lparr> hoveredCountry := country \<rparr> in
      case country of
        None \<Rightarrow> emit_event ''country:hover-end'' None g1
      | Some (Feature i isoCode) \<Rightarrow>
          (if isoCode \<noteq> [] then
             (if getEngagements engs isoCode \<noteq> None
              then emit_event ''country:hovered'' (Some isoCode) g1 else g1)
           else g1)
      | Some (Engagement e) \<Rightarrow>
          (if countryCode e \<noteq> []
           then emit_event ''country:hovered'' (Some (countryCode e)) g1 else g1))"

text \<open>
  \<^verbatim>\<open>handleGlobeHover(event, intersection)\<close>; \<open>coords\<close> is what \<^verbatim>\<open>pointToLatLng\<close>
  returned for the intersection point (\<^verbatim>\<open>null\<close> when three-globe's conversion threw).
\<close>

definition handleGlobeHover ::
  "(string \<rightharpoonup> 'e) option \<Rightarrow> (real \<times> real) option \<Rightarrow> 'e globe \<Rightarrow> error + 'e globe" where
  "handleGlobeHover engs coords g =
     (case coords of
        None \<Rightarrow> Inr g
      | Some (lat, lng) \<Rightarrow>
          (case getEngagementByCoords engs (heap_next g) lat lng 5 of
             Inl err \<Rightarrow> Inl err
           | Inr (engagementData, h) \<Rightarrow>
               (let g1 = g\<lparr> heap_next := h \<rparr>;
                    data = map_option Engagement engagementData
                in if data \<noteq> None \<and> strict_neq data (hoveredCountry g1)
                   then Inr (handleCountryHover engs data (hoveredCountry g1) g1)
                   else if data = None \<and> hoveredCountry g1 \<noteq> None
                   then Inr (handleCountryHover engs None (hoveredCountry g1) g1)
                   else Inr g1)))"

text \<open>
  What the pointer is over: nothing of the globe (\<^verbatim>\<open>getIntersections\<close> returned an
  empty array) or a point of it, with the result of \<^verbatim>\<open>pointToLatLng\<close>.
\<close>

datatype pointer = OffGlobe | OnGlobe "(real \<times> real) option"

text \<open>The \<^verbatim>\<open>scene:mousemove\<close> listener of \<^verbatim>\<open>setupEventListeners\<close>.\<close>

fun on_scene_mousemove :: "(string \<rightharpoonup> 'e) option \<Rightarrow> pointer \<Rightarrow> 'e globe \<Rightarrow> error + 'e globe" where
  "on_scene_mousemove engs (OnGlobe coords) g = handleGlobeHover engs coords g"
| "on_scene_mousemove engs OffGlobe g =
     (if hoveredCountry g \<noteq> None
      then Inr (handleCountryHover engs None (hoveredCountry g) g)
      else Inr g)"

text \<open>A run of mousemove events, stopping at the first exception.\<close>

fun mousemoves :: "(string \<rightharpoonup> 'e) option \<Rightarrow> pointer list \<Rightarrow> 'e globe \<Rightarrow> error + 'e globe" where
  "mousemoves engs [] g = Inr g"
| "mousemoves engs (p # ps) g =
     (case on_scene_mousemove engs p g of Inl err \<Rightarrow> Inl err | Inr g' \<Rightarrow> mousemoves engs ps g')"

text \<open>\<^verbatim>\<open>handleGlobeClick(event, intersection)\<close>.\<close>

definition handleGlobeClick ::
  "(string \<rightharpoonup> 'e) option \<Rightarrow> (real \<times> real) option \<Rightarrow> 'e globe \<Rightarrow> error + 'e globe" where
  "handleGlobeClick engs coords g =
     (case coords of
        None \<Rightarrow> Inr g
      | Some (lat, lng) \<Rightarrow>
          (case getEngagementByCoords engs (heap_next g) lat lng 5 of
             Inl err \<Rightarrow> Inl err
           | Inr (engagementData, h) \<Rightarrow>
               (let g1 = g\<lparr> heap_next := h \<rparr> in
                case engagementData of
                  Some e \<Rightarrow>
                    Inr (emit_event ''country:clicked'' (Some (countryCode e))
                           (g1\<lparr> selectedCountry := Some (Engagement e) \<rparr>))
                | None \<Rightarrow> Inr (emit_event ''globe:clicked'' None g1))))"

text \<open>The \<^verbatim>\<open>scene:click\<close> listener of \<^verbatim>\<open>setupEventListeners\<close>.\<close>

fun on_scene_click :: "(string \<rightharpoonup> 'e) option \<Rightarrow> pointer \<Rightarrow> 'e globe \<Rightarrow> error + 'e globe" where
  "on_scene_click engs (OnGlobe coords) g = handleGlobeClick engs coords g"
| "on_scene_click engs OffGlobe g =
     Inr (emit_event ''globe:deselected'' None (g\<lparr> selectedCountry := None \<rparr>))"

definition count_emitted :: "string \<Rightarrow> 'e globe \<Rightarrow> nat" where
  "count_emitted name g = length (filter (\<lambda>ev. fst ev = name) (emitted g))"

section \<open>Globe (core/Globe.js): camera animation\<close>

text \<open>
  \<^verbatim>\<open>Vector3.lerpVectors(v1, v2, alpha)\<close> of three.js: \<^verbatim>\<open>v1 + (v2 - v1) * alpha\<close> on each
  axis, in double arithmetic.
\<close>

definition lerp_axis :: "number \<Rightarrow> number \<Rightarrow> number \<Rightarrow> number" where
  "lerp_axis a b alpha = nadd a (nmul (nsub b a) alpha)"

definition lerpVectors :: "vec3 \<Rightarrow> vec3 \<Rightarrow> number \<Rightarrow> vec3" where
  "lerpVectors v1 v2 alpha =
     \<lparr> vx = lerp_axis (vx v1) (vx v2) alpha,
       vy = lerp_axis (vy v1) (vy v2) alpha,
       vz = lerp_axis (vz v1) (vz v2) alpha \<rparr>"

text \<open>
  \<^verbatim>\<open>animateCameraTo(position, target, duration = 2000)\<close>, called when
  \<^verbatim>\<open>performance.now()\<close> reads \<open>now\<close>. The closure \<^verbatim>\<open>animate\<close> it hands to
  \<^verbatim>\<open>requestAnimationFrame\<close> is determined by the values it captures, the record
  \<open>tween\<close>; \<open>raf_queue\<close> lists the closures waiting for the next frame, in the order
  they were registered. The camera's orientation is kept as the point it was last made
  to look at. Clock readings and durations are finite doubles, given by their values.
\<close>

definition animateCameraTo :: "vec3 \<Rightarrow> vec3 \<Rightarrow> real \<Rightarrow> real \<Rightarrow> 'e globe \<Rightarrow> 'e globe" where
  "animateCameraTo pos target dur now g =
     (case scene_camera g of
        None \<Rightarrow> g
      | Some cam \<Rightarrow>
          g\<lparr> raf_queue := raf_queue g @
               [\<lparr> startPosition = position cam, targetPosition = pos, targetLookAt = target,
                  startTime = now, duration = dur \<rparr>] \<rparr>)"

text \<open>
  \<^verbatim>\<open>Math.min(elapsed / duration, 1)\<close> with \<^verbatim>\<open>elapsed = currentTime - startTime\<close>, for a
  tween that started at \<open>start\<close> and lasts \<open>dur\<close>; and the closure's test
  \<^verbatim>\<open>progress < 1\<close>, which says that the tween is still in flight at that frame.
\<close>

definition progress_at :: "real \<Rightarrow> real \<Rightarrow> real \<Rightarrow> number" where
  "progress_at start dur currentTime =
     (let elapsed = nsub (Num currentTime) (Num start)
      in nmin (ndiv elapsed (Num dur)) (Num 1))"

definition in_flight :: "real \<Rightarrow> real \<Rightarrow> real \<Rightarrow> bool" where
  "in_flight start dur currentTime = nlt (progress_at start dur currentTime) (Num 1)"

text \<open>
  The closure \<^verbatim>\<open>animate(currentTime)\<close> of one call of \<^verbatim>\<open>animateCameraTo\<close>; \<open>approx\<close>
  is the approximation \<^verbatim>\<open>Math.pow\<close> makes.
\<close>

definition animate :: "(real \<Rightarrow> number) \<Rightarrow> real \<Rightarrow> tween \<Rightarrow> 'e globe \<Rightarrow> 'e globe" where
  "animate approx currentTime tw g =
     (let progress = progress_at (startTime tw) (duration tw) currentTime;
          eased = nsub (Num 1) (pow3 approx (nsub (Num 1) progress));
          g1 = g\<lparr> scene_camera :=
                 map_option
                   (\<lambda>cam. cam\<lparr> position := lerpVectors (startPosition tw) (targetPosition tw) eased,
                               lookAt := targetLookAt tw \<rparr>)
                   (scene_camera g) \<rparr>
      in if in_flight (startTime tw) (duration tw) currentTime
         then g1\<lparr> raf_queue := raf_queue g1 @ [tw] \<rparr>
         else emit_event ''camera:animation-complete'' None g1)"

text \<open>
  One display frame at time \<open>currentTime\<close>: the browser runs the callbacks that were
  waiting, in registration order; what they register waits for the next frame.
\<close>

definition animation_frame :: "(real \<Rightarrow> number) \<Rightarrow> real \<Rightarrow> 'e globe \<Rightarrow> 'e globe" where
  "animation_frame approx currentTime g =
     foldl (\<lambda>g' tw. animate approx currentTime tw g') (g\<lparr> raf_queue := [] \<rparr>) (raf_queue g)"

fun animation_frames :: "(real \<Rightarrow> number) \<Rightarrow> real list \<Rightarrow> 'e globe \<Rightarrow> 'e globe" where
  "animation_frames approx [] g = g"
| "animation_frames approx (t # ts) g = animation_frames approx ts (animation_frame approx t g)"

section \<open>Globe (core/Globe.js): clicking a country\<close>

text \<open>The table \<^verbatim>\<open>countryCenters\<close> of \<^verbatim>\<open>focusCountry\<close>: latitude and longitude.\<close>

definition countryCenters :: "string \<rightharpoonup> real \<times> real" where
  "countryCenters =
     [ ''IND'' \<mapsto> (205937/10000, 789629/10000),
       ''SGP'' \<mapsto> (13521/10000, 1038198/10000),
       ''ARE'' \<mapsto> (234241/10000, 538478/10000),
       ''MYS'' \<mapsto> (42105/10000, 1019758/10000),
       ''THA'' \<mapsto> (158700/10000, 1009925/10000),
       ''IDN'' \<mapsto> (-7893/10000, 1139213/10000),
       ''PHL'' \<mapsto> (128797/10000, 1217740/10000),
       ''HKG'' \<mapsto> (223193/10000, 1141694/10000) ]"

text \<open>
  \<^verbatim>\<open>focusCountry(countryCode)\<close>. \<open>getCoords\<close> is three-globe's
  \<^verbatim>\<open>getCoords(lat, lng, altitude)\<close>; the altitude passed is
  \<^verbatim>\<open>distance / globeRadius\<close> with \<^verbatim>\<open>distance = globeRadius * 2.5\<close>.
\<close>

definition focusCountry ::
  "(real \<Rightarrow> real \<Rightarrow> real \<Rightarrow> vec3) \<Rightarrow> real \<Rightarrow> string \<Rightarrow> 'e globe \<Rightarrow> 'e globe" where
  "focusCountry getCoords now code g =
     (case countryCenters code of
        None \<Rightarrow> g
      | Some (lat, lng) \<Rightarrow>
          emit_event ''country:focused'' (Some code)
            (animateCameraTo (getCoords lat lng (5/2)) \<lparr> vx = Num 0, vy = Num 0, vz = Num 0 \<rparr> 2000 now g))"

text \<open>
  \<^verbatim>\<open>handleCountryClick(country)\<close>: it reads \<^verbatim>\<open>country.properties.ISO_A3\<close>, which
  raises for an object without \<^verbatim>\<open>properties\<close>.
\<close>

definition handleCountryClick ::
  "(string \<rightharpoonup> 'e) option \<Rightarrow> (real \<Rightarrow> real \<Rightarrow> real \<Rightarrow> vec3) \<Rightarrow> real \<Rightarrow> 'e country option
     \<Rightarrow> 'e globe \<Rightarrow> error + 'e globe" where
  "handleCountryClick engs getCoords now country g =
     (case country of
        None \<Rightarrow> Inr g
      | Some (Engagement e) \<Rightarrow> Inl TypeError
      | Some (Feature i isoCode) \<Rightarrow>
          (let g1 = g\<lparr> selectedCountry := country \<rparr> in
           if getEngagements engs isoCode \<noteq> None
           then Inr (focusCountry getCoords now isoCode
                       (emit_event ''country:clicked'' (Some isoCode) g1))
           else Inr (emit_event ''country:no-data'' (Some isoCode) g1)))"

text \<open>The fields the constructor of \<^verbatim>\<open>Globe\<close> sets, for a scene with the given camera.\<close>

definition new_globe :: "camera option \<Rightarrow> 'e globe" where
  "new_globe cam =
     \<lparr> hoveredCountry = None, selectedCountry = None, scene_camera = cam,
       raf_queue = [], emitted = [], heap_next = 0 \<rparr>"

definition emitted_of :: "error + 'e globe \<Rightarrow> error + emission list" where
  "emitted_of r = (case r of Inl err \<Rightarrow> Inl err | Inr g \<Rightarrow> Inr (emitted g))"

text \<open>
  Runs in which a second request arrives while the first tween is in flight. The camera
  starts at (0, 0, 400), and \<^verbatim>\<open>Math.pow\<close> is taken to round the exact cube.

  In \<open>preemption_run\<close> a tween to (300, 0, 0) is requested at time 0, a frame runs at
  1000, a tween to (0, 50, 500) is requested at 1000, and frames run at 1500, 2000 and
  3000; both tweens last 2000 ms.

  In \<open>short_second_run\<close> the second tween lasts 500 ms: it is requested at 500, and
  frames run at 1000 and 2000.

  In \<open>rounding_run\<close> the first request is for the position the camera has, and the
  second, at 1000, for a point with \<open>z = -83.58088689627552\<close>, the double
  \<open>-5881482048146281 / 2 ^ 46\<close>; one frame runs at 3000.
\<close>

definition origin :: vec3 where
  "origin = \<lparr> vx = Num 0, vy = Num 0, vz = Num 0 \<rparr>"

definition vec :: "real \<Rightarrow> real \<Rightarrow> real \<Rightarrow> vec3" where
  "vec x y z = \<lparr> vx = Num x, vy = Num y, vz = Num z \<rparr>"

definition rounded_cube :: "real \<Rightarrow> number" where
  "rounded_cube x = to_double (x * x * x)"

definition start_globe :: "nat globe" where
  "start_globe = new_globe (Some \<lparr> position = vec 0 0 400, lookAt = origin \<rparr>)"

definition preemption_run :: "nat globe" where
  "preemption_run =
     animation_frames rounded_cube [1500, 2000, 3000]
       (animateCameraTo (vec 0 50 500) origin 2000 1000
          (animation_frames rounded_cube [1000]
             (animateCameraTo (vec 300 0 0) origin 2000 0 start_globe)))"

definition short_second_run :: "nat globe" where
  "short_second_run =
     animation_frames rounded_cube [1000, 2000]
       (animateCameraTo (vec 0 50 500) origin 500 500
          (animateCameraTo (vec 300 0 0) origin 2000 0 start_globe))"

definition rounding_run :: "nat globe" where
  "rounding_run =
     animation_frames rounded_cube [3000]
       (animateCameraTo (vec 0 0 (- 5881482048146281 / 2 ^ 46)) origin 2000 1000
          (animateCameraTo (vec 0 0 400) origin 2000 0 start_globe))"

section \<open>Controls (core/Controls.js)\<close>

text \<open>
  The fields of \<^verbatim>\<open>Controls\<close> that the mouse handlers and the auto-rotate timer read or
  write. \<open>orbit_autoRotate\<close> is \<^verbatim>\<open>this.orbitControls.autoRotate\<close>, \<open>None\<close> while
  \<^verbatim>\<open>this.orbitControls\<close> is \<^verbatim>\<open>null\<close>. \<open>autoRotateTimeout\<close> holds what \<^verbatim>\<open>setTimeout\<close>
  returned. The browser's timer table is part of the state: \<open>timers\<close> lists the pending
  timeouts of this object as (handle, due time), and \<open>next_timer\<close> is the next handle
  \<^verbatim>\<open>setTimeout\<close> gives out (handles are positive integers). The normalised pointer
  position \<^verbatim>\<open>this.mouse\<close>, which nothing below reads, is left out. An emitted event is
  recorded with the flag of its payload (\<^verbatim>\<open>isDragging\<close>, \<^verbatim>\<open>wasClick\<close>) where it has one.
\<close>

type_synonym control_emission = "string \<times> bool option"

record controls =
  isEnabled :: bool
  isDragging :: bool
  lastMousePosition :: "real \<times> real"
  mouseDelta :: "real \<times> real"
  isInteracting :: bool
  lastInteractionTime :: real
  autoRotateTimeout :: "nat option"
  mouseDownTime :: real
  clickThreshold :: real
  orbit_autoRotate :: "bool option"
  timers :: "(nat \<times> real) list"
  next_timer :: nat
  control_emitted :: "control_emission list"

text \<open>The constructor.\<close>

definition new_controls :: controls where
  "new_controls =
     \<lparr> isEnabled = True, isDragging = False, lastMousePosition = (0, 0), mouseDelta = (0, 0),
       isInteracting = False, lastInteractionTime = 0, autoRotateTimeout = None,
       mouseDownTime = 0, clickThreshold = 200, orbit_autoRotate = None,
       timers = [], next_timer = 1, control_emitted = [] \<rparr>"

definition control_emit :: "string \<Rightarrow> bool option \<Rightarrow> controls \<Rightarrow> controls" where
  "control_emit name flag c = c\<lparr> control_emitted := control_emitted c @ [(name, flag)] \<rparr>"

text \<open>\<^verbatim>\<open>Vector2.length()\<close> of three.js.\<close>

definition vec2_length :: "real \<times> real \<Rightarrow> real" where
  "vec2_length v = sqrt (fst v * fst v + snd v * snd v)"

text \<open>
  \<^verbatim>\<open>handleMouseDown(event)\<close> when \<^verbatim>\<open>performance.now()\<close> reads \<open>now\<close>; \<open>p\<close> is
  \<^verbatim>\<open>(event.clientX, event.clientY)\<close>.
\<close>

definition handleMouseDown :: "real \<Rightarrow> real \<times> real \<Rightarrow> controls \<Rightarrow> controls" where
  "handleMouseDown now p c =
     control_emit ''controls:mouse-down'' None
       (c\<lparr> isDragging := False, mouseDownTime := now, lastMousePosition := p \<rparr>)"

text \<open>\<^verbatim>\<open>handleMouseMove(event)\<close>.\<close>

definition handleMouseMove :: "real \<times> real \<Rightarrow> controls \<Rightarrow> controls" where
  "handleMouseMove p c =
     (let delta = (fst p - fst (lastMousePosition c), snd p - snd (lastMousePosition c));
          deltaLength = vec2_length delta;
          dragging = (if deltaLength > 5 then True else isDragging c)
      in control_emit ''controls:mouse-move'' (Some dragging)
           (c\<lparr> mouseDelta := delta, isDragging := dragging, lastMousePosition := p \<rparr>))"

text \<open>\<^verbatim>\<open>handleClick(event)\<close>.\<close>

definition handleClick :: "controls \<Rightarrow> controls" where
  "handleClick c = control_emit ''controls:click'' None c"

text \<open>
  \<^verbatim>\<open>handleMouseUp(event)\<close> when \<^verbatim>\<open>performance.now()\<close> reads \<open>now\<close>. The payload's
  \<^verbatim>\<open>wasClick\<close> is computed after \<^verbatim>\<open>isDragging\<close> was reset.
\<close>

definition handleMouseUp :: "real \<Rightarrow> controls \<Rightarrow> controls" where
  "handleMouseUp now c =
     (let clickDuration = now - mouseDownTime c;
          c1 = (if \<not> isDragging c \<and> clickDuration < clickThreshold c then handleClick c else c);
          c2 = c1\<lparr> isDragging := False \<rparr>
      in control_emit ''controls:mouse-up''
           (Some (\<not> isDragging c2 \<and> clickDuration < clickThreshold c2)) c2)"

text \<open>
  A full press-to-release cycle: the button goes down at \<open>p0\<close> at time \<open>t0\<close>, the pointer
  moves through the positions \<open>moves\<close>, and the button is released at time \<open>t1\<close>.
\<close>

definition press_release ::
  "real \<Rightarrow> real \<times> real \<Rightarrow> (real \<times> real) list \<Rightarrow> real \<Rightarrow> controls \<Rightarrow> controls" where
  "press_release t0 p0 moves t1 c =
     handleMouseUp t1 (foldl (\<lambda>c' p. handleMouseMove p c') (handleMouseDown t0 p0 c) moves)"

definition count_control :: "string \<Rightarrow> controls \<Rightarrow> nat" where
  "count_control name c = length (filter (\<lambda>ev. fst ev = name) (control_emitted c))"

text \<open>
  The cycle was classified as a click when \<^verbatim>\<open>handleClick\<close> ran during it, that is,
  when it emitted \<^verbatim>\<open>controls:click\<close>.
\<close>

definition classified_click ::
  "real \<Rightarrow> real \<times> real \<Rightarrow> (real \<times> real) list \<Rightarrow> real \<Rightarrow> controls \<Rightarrow> bool" where
  "classified_click t0 p0 moves t1 c =
     (count_control ''controls:click'' (press_release t0 p0 moves t1 c)
        = Suc (count_control ''controls:click'' c))"

text \<open>The distances between successive pointer positions of a cycle.\<close>

fun step_lengths :: "real \<times> real \<Rightarrow> (real \<times> real) list \<Rightarrow> real list" where
  "step_lengths p [] = []"
| "step_lengths p (q # qs) = vec2_length (fst q - fst p, snd q - snd p) # step_lengths q qs"

text \<open>
  The classification in the spec's words: a click if and only if the cumulative pointer
  movement stays below 5 pixels and the elapsed time below 200 milliseconds.
\<close>

definition spec_click :: "real \<Rightarrow> real \<times> real \<Rightarrow> (real \<times> real) list \<Rightarrow> real \<Rightarrow> bool" where
  "spec_click t0 p0 moves t1 = (sum_list (step_lengths p0 moves) < 5 \<and> t1 - t0 < 200)"

text \<open>
  \<^verbatim>\<open>stopAutoRotate()\<close>. A handle is truthy when it is not 0; \<^verbatim>\<open>clearTimeout\<close> removes
  the pending timeout with that handle, if there is one.
\<close>

definition stopAutoRotate :: "controls \<Rightarrow> controls" where
  "stopAutoRotate c =
     (let c1 = (case autoRotateTimeout c of
                  None \<Rightarrow> c
                | Some h \<Rightarrow>
                    (if h \<noteq> 0
                     then c\<lparr> timers := filter (\<lambda>tm. fst tm \<noteq> h) (timers c),
                             autoRotateTimeout := None \<rparr>
                     else c))
      in c1\<lparr> orbit_autoRotate := map_option (\<lambda>a. False) (orbit_autoRotate c1) \<rparr>)"

text \<open>
  \<^verbatim>\<open>scheduleAutoRotate()\<close> when the clock reads \<open>now\<close>: \<^verbatim>\<open>setTimeout(..., 3000)\<close>
  registers a timeout due at \<open>now + 3000\<close> under a new handle.
\<close>

definition scheduleAutoRotate :: "real \<Rightarrow> controls \<Rightarrow> controls" where
  "scheduleAutoRotate now c =
     (let c1 = stopAutoRotate c;
          h = next_timer c1
      in c1\<lparr> autoRotateTimeout := Some h,
              timers := timers c1 @ [(h, now + 3000)],
              next_timer := Suc h \<rparr>)"

text \<open>The function handed to \<^verbatim>\<open>setTimeout\<close>.\<close>

definition autoRotate_callback :: "controls \<Rightarrow> controls" where
  "autoRotate_callback c =
     (if orbit_autoRotate c \<noteq> None \<and> \<not> isInteracting c
      then control_emit ''controls:auto-rotate-started'' None (c\<lparr> orbit_autoRotate := Some True \<rparr>)
      else c)"

text \<open>
  The event loop at time \<open>now\<close>: every pending timeout that is due leaves the timer table
  and its callback runs. Timeouts run between tasks, never inside a handler.
\<close>

definition run_timers :: "real \<Rightarrow> controls \<Rightarrow> controls" where
  "run_timers now c =
     foldl (\<lambda>c' tm. autoRotate_callback c')
       (c\<lparr> timers := filter (\<lambda>tm. \<not> snd tm \<le> now) (timers c) \<rparr>)
       (filter (\<lambda>tm. snd tm \<le> now) (timers c))"

text \<open>The listeners of the orbit controls' \<^verbatim>\<open>start\<close> and \<^verbatim>\<open>end\<close> events.\<close>

definition orbit_start :: "real \<Rightarrow> controls \<Rightarrow> controls" where
  "orbit_start now c =
     control_emit ''controls:interaction-start'' None
       (stopAutoRotate (c\<lparr> isInteracting := True, lastInteractionTime := now \<rparr>))"

definition orbit_end :: "real \<Rightarrow> controls \<Rightarrow> controls" where
  "orbit_end now c =
     control_emit ''controls:interaction-end'' None
       (scheduleAutoRotate now (c\<lparr> isInteracting := False \<rparr>))"

text \<open>\<^verbatim>\<open>toggleAutoRotate()\<close>, \<^verbatim>\<open>cancelInteraction()\<close> and \<^verbatim>\<open>disable()\<close>.\<close>

definition toggleAutoRotate :: "real \<Rightarrow> controls \<Rightarrow> controls" where
  "toggleAutoRotate now c =
     (case orbit_autoRotate c of
        None \<Rightarrow> c
      | Some a \<Rightarrow>
          (let c1 = c\<lparr> orbit_autoRotate := Some (\<not> a) \<rparr>;
               c2 = (if \<not> a then scheduleAutoRotate now c1 else stopAutoRotate c1)
           in control_emit ''controls:auto-rotate'' (orbit_autoRotate c2) c2))"

definition cancelInteraction :: "controls \<Rightarrow> controls" where
  "cancelInteraction c =
     control_emit ''controls:interaction-cancelled'' None
       (c\<lparr> isDragging := False, isInteracting := False \<rparr>)"

definition disable :: "controls \<Rightarrow> controls" where
  "disable c = control_emit ''controls:disabled'' None (stopAutoRotate (c\<lparr> isEnabled := False \<rparr>))"

text \<open>
  \<^verbatim>\<open>setupOrbitControls()\<close> for a scene that has its camera and renderer: a new
  \<^verbatim>\<open>OrbitControls\<close>, whose \<^verbatim>\<open>autoRotate\<close> starts as \<^verbatim>\<open>false\<close>.
\<close>

definition setupOrbitControls :: "controls \<Rightarrow> controls" where
  "setupOrbitControls c = c\<lparr> orbit_autoRotate := Some False \<rparr>"

text \<open>
  What can happen to a \<^verbatim>\<open>Controls\<close> object, with the clock reading where the code
  reads the clock; \<open>Timers now\<close> is the event loop running the timeouts due at \<open>now\<close>.
\<close>

datatype action =
    Setup
  | OrbitStart real
  | OrbitEnd real
  | Schedule real
  | Stop
  | Toggle real
  | Cancel
  | Disable
  | Timers real
  | MouseDown real "real \<times> real"
  | MouseMove "real \<times> real"
  | MouseUp real

fun step :: "action \<Rightarrow> controls \<Rightarrow> controls" where
  "step Setup c = setupOrbitControls c"
| "step (OrbitStart now) c = orbit_start now c"
| "step (OrbitEnd now) c = orbit_end now c"
| "step (Schedule now) c = scheduleAutoRotate now c"
| "step Stop c = stopAutoRotate c"
| "step (Toggle now) c = toggleAutoRotate now c"
| "step Cancel c = cancelInteraction c"
| "step Disable c = disable c"
| "step (Timers now) c = run_timers now c"
| "step (MouseDown now p) c = handleMouseDown now p c"
| "step (MouseMove p) c = handleMouseMove p c"
| "step (MouseUp now) c = handleMouseUp now c"

fun run_controls :: "action list \<Rightarrow> controls \<Rightarrow> controls" where
  "run_controls [] c = c"
| "run_controls (a # as) c = run_controls as (step a c)"

text \<open>
  The invariant of the timer table: at most one timeout is pending, and it is the one
  whose handle \<^verbatim>\<open>autoRotateTimeout\<close> holds.
\<close>

definition timer_inv :: "controls \<Rightarrow> bool" where
  "timer_inv c =
     (0 < next_timer c \<and>
      (case timers c of
         [] \<Rightarrow> True
       | [tm] \<Rightarrow> autoRotateTimeout c = Some (fst tm) \<and> fst tm \<noteq> 0
       | _ \<Rightarrow> False))"

section \<open>Globe (core/Globe.js): project arcs\<close>

text \<open>
  The project list and its entries come from \<^verbatim>\<open>response.json()\<close>, so a coordinate can be
  any JSON value, or \<^verbatim>\<open>undefined\<close> when the property is missing. An array or an object
  is given by what converting it to a string yields: the string, or \<open>None\<close> when the
  conversion raises (an object whose own \<^verbatim>\<open>toString\<close> is not a function). Strings are
  taken to be ASCII.
\<close>

datatype jsval =
    JUndefined
  | JNull
  | JBool bool
  | JNumber number
  | JString string
  | JObject "string option"

text \<open>
  \<^verbatim>\<open>parseFloat\<close> on a string: it skips leading white space and takes the longest
  prefix that is a decimal literal: an optional sign, then \<^verbatim>\<open>Infinity\<close> or digits with an
  optional fraction and an optional exponent (an exponent counts only when it has a
  digit). What follows is ignored; with no such prefix the result is \<^verbatim>\<open>NaN\<close>. The value
  of the literal is rounded to a double.
\<close>

definition is_space :: "char \<Rightarrow> bool" where
  "is_space c = (c \<in> set [CHR '' '', CHR 0x09, CHR 0x0A, CHR 0x0B, CHR 0x0C, CHR 0x0D])"

definition is_digit :: "char \<Rightarrow> bool" where
  "is_digit c = (c \<in> set ''0123456789'')"

definition digit_value :: "char \<Rightarrow> nat" where
  "digit_value c = of_char c - 48"

definition digits_value :: "string \<Rightarrow> nat" where
  "digits_value ds = foldl (\<lambda>n c. 10 * n + digit_value c) 0 ds"

definition exponent_of :: "string \<Rightarrow> int" where
  "exponent_of s =
     (case s of
        [] \<Rightarrow> 0
      | c # t \<Rightarrow>
          (if c = CHR ''e'' \<or> c = CHR ''E'' then
             (case t of
                [] \<Rightarrow> 0
              | sign # u \<Rightarrow>
                  (if sign = CHR ''+'' then int (digits_value (takeWhile is_digit u))
                   else if sign = CHR ''-'' then - int (digits_value (takeWhile is_digit u))
                   else int (digits_value (takeWhile is_digit t))))
           else 0))"

definition unsigned_literal :: "string \<Rightarrow> number option" where
  "unsigned_literal s =
     (if take 8 s = ''Infinity'' then Some PosInfinity
      else
        (let ip = takeWhile is_digit s;
             r1 = dropWhile is_digit s;
             has_point = (r1 \<noteq> [] \<and> hd r1 = CHR ''.'');
             fp = (if has_point then takeWhile is_digit (tl r1) else []);
             r2 = (if has_point then dropWhile is_digit (tl r1) else r1)
         in if ip = [] \<and> fp = [] then None
            else Some (to_double
                   (real (digits_value (ip @ fp)) / 10 ^ length fp * 10 powi exponent_of r2))))"

definition parse_float :: "string \<Rightarrow> number" where
  "parse_float s =
     (let t = dropWhile is_space s;
          signed = (t \<noteq> [] \<and> (hd t = CHR ''+'' \<or> hd t = CHR ''-''));
          negative = (t \<noteq> [] \<and> hd t = CHR ''-'')
      in case unsigned_literal (if signed then tl t else t) of
           None \<Rightarrow> NaN
         | Some n \<Rightarrow> (if negative then nneg n else n))"

text \<open>
  \<^verbatim>\<open>parseFloat(value)\<close>: the value is converted to a string and the string is parsed.
  A number comes back as itself, since its string is the shortest decimal that rounds
  to it.
\<close>

fun parseFloat :: "jsval \<Rightarrow> error + number" where
  "parseFloat (JNumber n) = Inr n"
| "parseFloat (JString s) = Inr (parse_float s)"
| "parseFloat JUndefined = Inr (parse_float ''undefined'')"
| "parseFloat JNull = Inr (parse_float ''null'')"
| "parseFloat (JBool b) = Inr (parse_float (if b then ''true'' else ''false''))"
| "parseFloat (JObject (Some s)) = Inr (parse_float s)"
| "parseFloat (JObject None) = Inl TypeError"

record arc =
  startLat :: jsval
  startLng :: jsval
  endLat :: jsval
  endLng :: jsval
  status :: jsval
  arcAlt :: jsval
  arc_order :: jsval

text \<open>
  An entry of the project array: \<^verbatim>\<open>null\<close>, an object with its properties, or a value
  that has none of the four properties (a boolean, a number, a string or an array, given
  by its JSON text). Reading a property of \<^verbatim>\<open>null\<close> raises a \<^verbatim>\<open>TypeError\<close>.
\<close>

datatype entry = NullEntry | ValueEntry string | ArcEntry arc

fun property :: "(arc \<Rightarrow> jsval) \<Rightarrow> entry \<Rightarrow> error + jsval" where
  "property f NullEntry = Inl TypeError"
| "property f (ValueEntry v) = Inr JUndefined"
| "property f (ArcEntry a) = Inr (f a)"

definition parsed_property :: "(arc \<Rightarrow> jsval) \<Rightarrow> entry \<Rightarrow> error + number" where
  "parsed_property f e = (case property f e of Inl err \<Rightarrow> Inl err | Inr v \<Rightarrow> parseFloat v)"

text \<open>
  The callback of \<^verbatim>\<open>filter\<close> up to its value \<^verbatim>\<open>isValid\<close>: the four \<^verbatim>\<open>parseFloat\<close>
  calls in order, then the test.
\<close>

definition isValid :: "entry \<Rightarrow> error + bool" where
  "isValid e =
     (case parsed_property startLat e of Inl err \<Rightarrow> Inl err | Inr sLat \<Rightarrow>
      case parsed_property startLng e of Inl err \<Rightarrow> Inl err | Inr sLng \<Rightarrow>
      case parsed_property endLat e of Inl err \<Rightarrow> Inl err | Inr eLat \<Rightarrow>
      case parsed_property endLng e of Inl err \<Rightarrow> Inl err | Inr eLng \<Rightarrow>
        Inr (\<not> isNaN sLat \<and> \<not> isNaN sLng \<and> \<not> isNaN eLat \<and> \<not> isNaN eLng \<and>
             ge_const sLat (-90) \<and> le_const sLat 90 \<and>
             ge_const eLat (-90) \<and> le_const eLat 90 \<and>
             ge_const sLng (-180) \<and> le_const sLng 180 \<and>
             ge_const eLng (-180) \<and> le_const eLng 180))"

text \<open>The lines \<^verbatim>\<open>loadProjectArcs\<close> writes to the console.\<close>

datatype console_line =
    Warn_no_project_data
  | Warn_invalid_arc entry
  | Log_setting_arcs nat nat

text \<open>
  The part of the globe that \<^verbatim>\<open>loadProjectArcs\<close> writes: the arcs handed to
  three-globe with \<^verbatim>\<open>arcsData\<close>, and the console.
\<close>

record arc_layer =
  arcsData :: "entry list"
  console :: "console_line list"

text \<open>
  \<^verbatim>\<open>legacyProjects.filter(...)\<close>: the entries in order, with the console so far. The
  callback warns about an entry it rejects; an exception ends the loop.
\<close>

fun filter_arcs ::
  "entry list \<Rightarrow> console_line list \<Rightarrow> (error + entry list) \<times> console_line list" where
  "filter_arcs [] out = (Inr [], out)"
| "filter_arcs (e # es) out =
     (case isValid e of
        Inl err \<Rightarrow> (Inl err, out)
      | Inr ok \<Rightarrow>
          (case filter_arcs es (if ok then out else out @ [Warn_invalid_arc e]) of
             (Inl err, out') \<Rightarrow> (Inl err, out')
           | (Inr kept, out') \<Rightarrow> (Inr (if ok then e # kept else kept), out')))"

text \<open>
  What \<^verbatim>\<open>this.data.projects\<close> can hold: a falsy value (\<^verbatim>\<open>null\<close>, \<^verbatim>\<open>false\<close>, 0, the
  empty string), a truthy value that is no array (the flag says whether its
  \<^verbatim>\<open>length\<close> property is 0), or an array. \<^verbatim>\<open>getProjects()\<close> returns
  \<^verbatim>\<open>this.data.projects || []\<close>.
\<close>

datatype projects_json = Falsy | NonArray bool | ArrayOf "entry list"

fun getProjects :: "projects_json \<Rightarrow> projects_json" where
  "getProjects Falsy = ArrayOf []"
| "getProjects p = p"

text \<open>
  \<^verbatim>\<open>loadProjectArcs()\<close>. The result holds the exception raised, if any, and the layer as
  the call leaves it. A value that is no array has no \<^verbatim>\<open>filter\<close> method, so calling it
  raises.
\<close>

definition loadProjectArcs :: "projects_json \<Rightarrow> arc_layer \<Rightarrow> error option \<times> arc_layer" where
  "loadProjectArcs projects st =
     (case getProjects projects of
        Falsy \<Rightarrow> (None, st\<lparr> console := console st @ [Warn_no_project_data] \<rparr>)
      | NonArray zero_length \<Rightarrow>
          (if zero_length then (None, st\<lparr> console := console st @ [Warn_no_project_data] \<rparr>)
           else (Some TypeError, st))
      | ArrayOf legacyProjects \<Rightarrow>
          (if legacyProjects = []
           then (None, st\<lparr> console := console st @ [Warn_no_project_data] \<rparr>)
           else
             (case filter_arcs legacyProjects (console st) of
                (Inl err, out) \<Rightarrow> (Some err, st\<lparr> console := out \<rparr>)
              | (Inr validArcs, out) \<Rightarrow>
                  (None,
                   st\<lparr> arcsData := validArcs,
                       console := out
                         @ [Log_setting_arcs (length validArcs) (length legacyProjects)] \<rparr>))))"

text \<open>The console lines a call added.\<close>

definition new_console_lines :: "projects_json \<Rightarrow> arc_layer \<Rightarrow> console_line list" where
  "new_console_lines projects st =
     drop (length (console st)) (console (snd (loadProjectArcs projects st)))"

text \<open>
  An entry on which the callback raises: \<^verbatim>\<open>null\<close>, or one with a coordinate whose
  conversion to a string raises.
\<close>

fun raises :: "entry \<Rightarrow> bool" where
  "raises NullEntry = True"
| "raises (ValueEntry v) = False"
| "raises (ArcEntry a) =
     (startLat a = JObject None \<or> startLng a = JObject None \<or>
      endLat a = JObject None \<or> endLng a = JObject None)"

text \<open>
  What \<^verbatim>\<open>parseFloat\<close> makes of a coordinate, and validity as the code has it: each of
  the four coordinates parses to a finite number, the latitudes in [-90, 90] and the
  longitudes in [-180, 180].
\<close>

fun finite_between :: "real \<Rightarrow> real \<Rightarrow> number \<Rightarrow> bool" where
  "finite_between lo hi (Num x) = (lo \<le> x \<and> x \<le> hi)"
| "finite_between lo hi n = False"

definition parsed :: "jsval \<Rightarrow> number" where
  "parsed v = (case parseFloat v of Inl err \<Rightarrow> NaN | Inr n \<Rightarrow> n)"

fun parses_in_range :: "entry \<Rightarrow> bool" where
  "parses_in_range (ArcEntry a) =
     (finite_between (-90) 90 (parsed (startLat a)) \<and>
      finite_between (-180) 180 (parsed (startLng a)) \<and>
      finite_between (-90) 90 (parsed (endLat a)) \<and>
      finite_between (-180) 180 (parsed (endLng a)))"
| "parses_in_range e = False"

text \<open>
  Validity in the spec's words: all four coordinates are finite numbers, the latitudes
  in [-90, 90] and the longitudes in [-180, 180].
\<close>

fun finite_number_between :: "real \<Rightarrow> real \<Rightarrow> jsval \<Rightarrow> bool" where
  "finite_number_between lo hi (JNumber (Num x)) = (lo \<le> x \<and> x \<le> hi)"
| "finite_number_between lo hi v = False"

fun spec_valid_arc :: "entry \<Rightarrow> bool" where
  "spec_valid_arc (ArcEntry a) =
     (finite_number_between (-90) 90 (startLat a) \<and>
      finite_number_between (-180) 180 (startLng a) \<and>
      finite_number_between (-90) 90 (endLat a) \<and>
      finite_number_between (-180) 180 (endLng a))"
| "spec_valid_arc e = False"

text \<open>An entry whose four coordinates are all numbers.\<close>

fun is_number :: "jsval \<Rightarrow> bool" where
  "is_number (JNumber n) = True"
| "is_number v = False"

fun numeric_coordinates :: "entry \<Rightarrow> bool" where
  "numeric_coordinates (ArcEntry a) =
     (is_number (startLat a) \<and> is_number (startLng a) \<and>
      is_number (endLat a) \<and> is_number (endLng a))"
| "numeric_coordinates e = False"

text \<open>An arc from the given start latitude to Singapore, for computing with.\<close>

definition sample_arc :: "jsval \<Rightarrow> entry" where
  "sample_arc lat =
     ArcEntry
       \<lparr> startLat = lat, startLng = JNumber (Num 77),
         endLat = JNumber (Num (13/10)), endLng = JNumber (Num (1038/10)),
         status = JBool True, arcAlt = JNumber (Num (3/10)), arc_order = JNumber (Num 1) \<rparr>"

definition empty_layer :: arc_layer where
  "empty_layer = \<lparr> arcsData = [], console = [] \<rparr>"

section \<open>Globe (core/Globe.js): country colours\<close>

text \<open>
  A \<^verbatim>\<open>THREE.Color\<close> holds three channels. The entries of \<^verbatim>\<open>this.colors\<close> are colour
  strings, two of them constants of \<^verbatim>\<open>Constants.js\<close>, which is not among the sources;
  the record below holds the three that \<^verbatim>\<open>getEnhancedCountryColor\<close> reads, and
  \<open>parse\<close> stands for the constructor \<^verbatim>\<open>new THREE.Color(string)\<close>. The function returns
  either one of the strings or a \<^verbatim>\<open>THREE.Color\<close>.
\<close>

record rgb =
  red :: real
  green :: real
  blue :: real

record colors =
  india :: string
  zyetaBlue :: string
  defaultCountry :: string

datatype color_value = CssString string | Color rgb

text \<open>\<^verbatim>\<open>Color.lerp(color, alpha)\<close> of three.js: \<^verbatim>\<open>this.r += (color.r - this.r) * alpha\<close>.\<close>

definition lerp :: "rgb \<Rightarrow> rgb \<Rightarrow> real \<Rightarrow> rgb" where
  "lerp c1 c2 alpha =
     \<lparr> red = red c1 + (red c2 - red c1) * alpha,
       green = green c1 + (green c2 - green c1) * alpha,
       blue = blue c1 + (blue c2 - blue c1) * alpha \<rparr>"

text \<open>\<^verbatim>\<open>interpolateColor(color1, color2, factor)\<close>.\<close>

definition interpolateColor :: "(string \<Rightarrow> rgb) \<Rightarrow> string \<Rightarrow> string \<Rightarrow> real \<Rightarrow> rgb" where
  "interpolateColor parse color1 color2 factor = lerp (parse color1) (parse color2) factor"

text \<open>
  \<^verbatim>\<open>getEnhancedCountryColor(country)\<close>: \<open>isoCode\<close> is \<^verbatim>\<open>country.properties.ISO_A3\<close>, and
  \<open>countryDataMap\<close> gives the \<^verbatim>\<open>projectCount\<close> (a finite number) of the countries that
  have an entry.
\<close>

definition getEnhancedCountryColor ::
  "colors \<Rightarrow> (string \<Rightarrow> rgb) \<Rightarrow> (string \<rightharpoonup> real) \<Rightarrow> string \<Rightarrow> color_value" where
  "getEnhancedCountryColor cs parse countryDataMap isoCode =
     (if isoCode = ''IND'' then CssString (india cs)
      else
        (case countryDataMap isoCode of
           Some projectCount \<Rightarrow>
             (let intensity = min (projectCount / 10) 1
              in Color (interpolateColor parse (defaultCountry cs) (zyetaBlue cs) intensity))
         | None \<Rightarrow> CssString (defaultCountry cs)))"

text \<open>The channels a returned value stands for.\<close>

fun rgb_of :: "(string \<Rightarrow> rgb) \<Rightarrow> color_value \<Rightarrow> rgb" where
  "rgb_of parse (CssString s) = parse s"
| "rgb_of parse (Color c) = c"

text \<open>
  On each channel, \<open>d\<close> is at or beyond \<open>c\<close> in the direction that leads from \<open>lo\<close>
  to \<open>hi\<close>.
\<close>

definition not_behind :: "rgb \<Rightarrow> rgb \<Rightarrow> rgb \<Rightarrow> rgb \<Rightarrow> bool" where
  "not_behind lo hi c d =
     (0 \<le> (red d - red c) * (red hi - red lo) \<and>
      0 \<le> (green d - green c) * (green hi - green lo) \<and>
      0 \<le> (blue d - blue c) * (blue hi - blue lo))"

text \<open>A palette to compute with: white, a blue and gold.\<close>

definition sample_colors :: colors where
  "sample_colors = \<lparr> india = ''gold'', zyetaBlue = ''blue'', defaultCountry = ''white'' \<rparr>"

definition sample_parse :: "string \<Rightarrow> rgb" where
  "sample_parse s =
     (if s = ''white'' then \<lparr> red = 1, green = 1, blue = 1 \<rparr>
      else if s = ''blue'' then \<lparr> red = 0, green = 4/5, blue = 1 \<rparr>
      else \<lparr> red = 1, green = 4/5, blue = 0 \<rparr>)"

section \<open>Scene (core/Scene.js): the render loop\<close>

text \<open>
  \<^verbatim>\<open>this.clock\<close> is a \<^verbatim>\<open>THREE.Clock\<close>. The class belongs to three.js, not to this
  repository; the definitions below follow its \<^verbatim>\<open>src/core/Clock.js\<close>: \<^verbatim>\<open>start()\<close> sets
  \<^verbatim>\<open>startTime\<close> and \<^verbatim>\<open>oldTime\<close> to the current time, \<^verbatim>\<open>elapsedTime\<close> to 0 and
  \<^verbatim>\<open>running\<close> to true; \<^verbatim>\<open>getDelta()\<close> starts a clock that is not running (with
  \<^verbatim>\<open>autoStart\<close>) and returns 0, and otherwise returns the seconds since \<^verbatim>\<open>oldTime\<close>,
  adding them to \<^verbatim>\<open>elapsedTime\<close>; \<^verbatim>\<open>getElapsedTime()\<close> calls \<^verbatim>\<open>getDelta()\<close> and
  returns \<^verbatim>\<open>elapsedTime\<close>. Each argument \<open>now\<close> is what \<^verbatim>\<open>performance.now()\<close> reads
  (milliseconds) at that call.
\<close>

record clock =
  autoStart :: bool
  clock_startTime :: real
  oldTime :: real
  clock_elapsedTime :: real
  running :: bool

definition new_clock :: clock where
  "new_clock =
     \<lparr> autoStart = True, clock_startTime = 0, oldTime = 0, clock_elapsedTime = 0, running = False \<rparr>"

definition clock_start :: "real \<Rightarrow> clock \<Rightarrow> clock" where
  "clock_start now k =
     k\<lparr> clock_startTime := now, oldTime := now, clock_elapsedTime := 0, running := True \<rparr>"

definition getDelta :: "real \<Rightarrow> clock \<Rightarrow> real \<times> clock" where
  "getDelta now k =
     (if autoStart k \<and> \<not> running k then (0, clock_start now k)
      else if running k then
        (let diff = (now - oldTime k) / 1000
         in (diff, k\<lparr> oldTime := now, clock_elapsedTime := clock_elapsedTime k + diff \<rparr>))
      else (0, k))"

definition getElapsedTime :: "real \<Rightarrow> clock \<Rightarrow> real \<times> clock" where
  "getElapsedTime now k = (case getDelta now k of (diff, k') \<Rightarrow> (clock_elapsedTime k', k'))"

text \<open>
  The payload of \<^verbatim>\<open>scene:animate\<close>, and the fields of \<^verbatim>\<open>Scene\<close> the loop uses. An
  emitted event is recorded with its frame payload where it has one. \<open>next_raf\<close> is the
  next handle \<^verbatim>\<open>requestAnimationFrame\<close> returns.
\<close>

record frame_info =
  deltaTime :: real
  elapsedTime :: real
  currentTime :: real

type_synonym scene_emission = "string \<times> frame_info option"

record scene =
  isAnimating :: bool
  isPaused :: bool
  scene_clock :: clock
  animationId :: "nat option"
  next_raf :: nat
  frameCount :: nat
  fps :: int
  lastTime :: real
  renderTime :: real
  scene_emitted :: "scene_emission list"

definition new_scene :: scene where
  "new_scene =
     \<lparr> isAnimating = False, isPaused = False, scene_clock = new_clock, animationId = None,
       next_raf = 1, frameCount = 0, fps = 0, lastTime = 0, renderTime = 0, scene_emitted = [] \<rparr>"

definition scene_emit :: "string \<Rightarrow> frame_info option \<Rightarrow> scene \<Rightarrow> scene" where
  "scene_emit name payload s = s\<lparr> scene_emitted := scene_emitted s @ [(name, payload)] \<rparr>"

text \<open>\<^verbatim>\<open>updateStats(currentTime)\<close>; \<^verbatim>\<open>Math.round(x)\<close> is \<open>\<lfloor>x + 1/2\<rfloor>\<close>.\<close>

definition updateStats :: "real \<Rightarrow> scene \<Rightarrow> scene" where
  "updateStats now s =
     (let s1 = s\<lparr> frameCount := Suc (frameCount s) \<rparr>
      in if now - lastTime s1 \<ge> 1000
         then scene_emit ''scene:stats'' None
                (s1\<lparr> fps := \<lfloor>(real (frameCount s1) * 1000) / (now - lastTime s1) + 1/2\<rfloor>,
                      frameCount := 0, lastTime := now \<rparr>)
         else s1)"

text \<open>
  The readings of \<^verbatim>\<open>performance.now()\<close> during one call of \<^verbatim>\<open>animate\<close>, in the order
  the calls happen: for \<^verbatim>\<open>currentTime\<close>, inside \<^verbatim>\<open>clock.getDelta()\<close>, inside
  \<^verbatim>\<open>clock.getElapsedTime()\<close>, before and after rendering.
\<close>

record readings =
  at_current :: real
  at_delta :: real
  at_elapsed :: real
  at_render_start :: real
  at_render_end :: real

text \<open>\<^verbatim>\<open>animate()\<close>, the callback of the render loop.\<close>

definition scene_animate :: "readings \<Rightarrow> scene \<Rightarrow> scene" where
  "scene_animate rd s =
     (if \<not> isAnimating s then s
      else
        (let s1 = s\<lparr> animationId := Some (next_raf s), next_raf := Suc (next_raf s) \<rparr>
         in if isPaused s1 then s1
            else
              (case getDelta (at_delta rd) (scene_clock s1) of
                 (delta, k1) \<Rightarrow>
                   (let s2 = updateStats (at_current rd) (s1\<lparr> scene_clock := k1 \<rparr>)
                    in case getElapsedTime (at_elapsed rd) (scene_clock s2) of
                         (elapsed, k2) \<Rightarrow>
                           (scene_emit ''scene:animate''
                              (Some \<lparr> deltaTime = delta, elapsedTime = elapsed,
                                      currentTime = at_current rd \<rparr>)
                              (s2\<lparr> scene_clock := k2 \<rparr>))
                           \<lparr> renderTime := at_render_end rd - at_render_start rd \<rparr>))))"

text \<open>\<^verbatim>\<open>start()\<close>, \<^verbatim>\<open>pause()\<close>, \<^verbatim>\<open>resume()\<close> and \<^verbatim>\<open>stop()\<close>.\<close>

definition scene_start :: "real \<Rightarrow> readings \<Rightarrow> scene \<Rightarrow> scene" where
  "scene_start now rd s =
     (if isAnimating s then s
      else scene_emit ''scene:started'' None
             (scene_animate rd (s\<lparr> isAnimating := True, isPaused := False, lastTime := now \<rparr>)))"

definition pause :: "scene \<Rightarrow> scene" where
  "pause s = scene_emit ''scene:paused'' None (s\<lparr> isPaused := True \<rparr>)"

definition resume :: "real \<Rightarrow> scene \<Rightarrow> scene" where
  "resume now s =
     scene_emit ''scene:resumed'' None
       (s\<lparr> isPaused := False, scene_clock := clock_start now (scene_clock s) \<rparr>)"

definition scene_stop :: "scene \<Rightarrow> scene" where
  "scene_stop s = scene_emit ''scene:stopped'' None (s\<lparr> isAnimating := False, animationId := None \<rparr>)"

text \<open>The frames delivered to the listeners of \<^verbatim>\<open>scene:animate\<close>, in order.\<close>

fun frames_of :: "scene_emission list \<Rightarrow> frame_info list" where
  "frames_of [] = []"
| "frames_of ((name, payload) # evs) =
     (if name = ''scene:animate''
      then (case payload of Some f \<Rightarrow> f # frames_of evs | None \<Rightarrow> frames_of evs)
      else frames_of evs)"

definition delivered :: "scene \<Rightarrow> frame_info list" where
  "delivered s = frames_of (scene_emitted s)"

text \<open>The display refreshes at the given readings, one call of \<^verbatim>\<open>animate\<close> each.\<close>

fun scene_frames :: "readings list \<Rightarrow> scene \<Rightarrow> scene" where
  "scene_frames [] s = s"
| "scene_frames (rd # rds) s = scene_frames rds (scene_animate rd s)"

text \<open>A frame in which the clock reads \<open>t\<close> at every call.\<close>

definition at_time :: "real \<Rightarrow> readings" where
  "at_time t =
     \<lparr> at_current = t, at_delta = t, at_elapsed = t, at_render_start = t, at_render_end = t \<rparr>"

text \<open>
  A run with a pause: the loop starts at 0, a frame runs at 1000, the loop is paused,
  frames come at 2000 and 60000, the loop is resumed at 61000, and a frame runs at 61016.
\<close>

definition paused_run :: scene where
  "paused_run =
     scene_animate (at_time 61016)
       (resume 61000
          (scene_frames [at_time 2000, at_time 60000]
             (pause (scene_animate (at_time 1000) (scene_start 0 (at_time 0) new_scene)))))"

section \<open>App (core/App.js): pausing the application\<close>

text \<open>
  The application object holds the modules; each is \<^verbatim>\<open>null\<close> until it is built.
  \<^verbatim>\<open>App.pause()\<close> and \<^verbatim>\<open>App.resume()\<close> are what the \<^verbatim>\<open>visibilitychange\<close> handler
  calls. Nothing listens to \<^verbatim>\<open>scene:paused\<close> or \<^verbatim>\<open>scene:resumed\<close>, so emitting them
  runs no handler of the Globe or the Controls.
\<close>

record 'e app =
  app_scene :: "scene option"
  app_globe :: "'e globe option"
  app_controls :: "controls option"
  app_emitted :: "string list"

definition app_pause :: "'e app \<Rightarrow> 'e app" where
  "app_pause a =
     (a\<lparr> app_scene := map_option pause (app_scene a) \<rparr>)
       \<lparr> app_emitted := app_emitted a @ [''app:paused''] \<rparr>"

definition app_resume :: "real \<Rightarrow> 'e app \<Rightarrow> 'e app" where
  "app_resume now a =
     (a\<lparr> app_scene := map_option (resume now) (app_scene a) \<rparr>)
       \<lparr> app_emitted := app_emitted a @ [''app:resumed''] \<rparr>"

section \<open>Properties of the EventEmitter\<close>

lemma emit_loop_calls:
  "i \<le> length ls \<Longrightarrow> snd (emit_loop ls i live calls) = calls @ rev (map callback (take i ls))"
proof (induction i arbitrary: live calls)
  case 0
  then show ?case by simp
next
  case (Suc i)
  then have "take (Suc i) ls = take i ls @ [ls ! i]"
    by (simp add: take_Suc_conv_app_nth)
  with Suc show ?case by (simp add: Let_def)
qed

lemma emit_calls_reversed:
  "evs event = Some ls \<Longrightarrow> snd (emit evs event) = rev (map callback ls)"
  using emit_loop_calls [of "length ls" ls ls "[]"]
  by (simp add: emit_def split: prod.splits) (metis snd_conv)

lemma on_sorted_desc:
  "\<exists>ls. on evs event cb opts event = Some ls \<and> sorted (map (\<lambda>l. - priority l) ls)"
  by (simp add: on_def sort_by_priority_def Let_def)

text \<open>
  C2. The spec: publishing an event invokes the handlers in descending priority order,
  and handlers of equal priority in registration order. The code keeps the listener
  array in that order (\<open>on_sorted_desc\<close>) but \<^verbatim>\<open>emit\<close> walks it from the last index
  down to 0 (\<open>emit_calls_reversed\<close>). Registering handler 1 (priority 0), handler 2
  (priority 5) and handler 3 (priority 0) and publishing invokes 3, then 1, then 2:
  the lowest priority first, and of the two equal ones the later registration first.
\<close>

theorem emit_invokes_ascending_priority:
  "snd (emit (on (on (on Map.empty ''e'' 1 no_options) ''e'' 2 (with_priority 5)) ''e'' 3 no_options) ''e'')
     = [3, 1, 2]"
  by (simp add: emit_def on_def sort_by_priority_def mk_listener_def no_options_def
      with_priority_def Let_def splice1_def)

section \<open>Properties of the coordinate lookup\<close>

lemma coords_loop_first_box:
  "list_all (\<lambda>cb. \<not> in_bounds (snd cb) lat lng) pre \<Longrightarrow> in_bounds b lat lng \<Longrightarrow> tbl c = None
     \<Longrightarrow> coords_loop (Some tbl) h (pre @ (c, b) # post) lat lng = Inr (None, h)"
  by (induction pre) auto

text \<open>
  C10. The tolerance argument of \<^verbatim>\<open>getEngagementByCoords\<close> has no effect on the result:
  any two tolerances give the same result for the same table, latitude and longitude.
  And when the first box of the table that holds the point belongs to a country with no
  engagement record, the function returns \<^verbatim>\<open>null\<close> (and allocates nothing), whatever
  the boxes after it hold.
\<close>

theorem getEngagementByCoords_ignores_tolerance:
  "getEngagementByCoords engs h lat lng t1 = getEngagementByCoords engs h lat lng t2 \<and>
   (countryBounds = pre @ (c, b) # post \<and> list_all (\<lambda>cb. \<not> in_bounds (snd cb) lat lng) pre \<and>
    in_bounds b lat lng \<and> tbl c = None
      \<longrightarrow> getEngagementByCoords (Some tbl) h lat lng t1 = Inr (None, h))"
proof (intro conjI impI)
  show "getEngagementByCoords engs h lat lng t1 = getEngagementByCoords engs h lat lng t2"
    by (simp add: getEngagementByCoords_def)
next
  assume a: "countryBounds = pre @ (c, b) # post \<and>
    list_all (\<lambda>cb. \<not> in_bounds (snd cb) lat lng) pre \<and> in_bounds b lat lng \<and> tbl c = None"
  from a have split: "countryBounds = pre @ (c, b) # post"
    by (rule conjunct1)
  from a have "list_all (\<lambda>cb. \<not> in_bounds (snd cb) lat lng) pre"
    and "in_bounds b lat lng" and "tbl c = None"
    by blast+
  then have "coords_loop (Some tbl) h (pre @ (c, b) # post) lat lng = Inr (None, h)"
    by (rule coords_loop_first_box)
  then show "getEngagementByCoords (Some tbl) h lat lng t1 = Inr (None, h)"
    unfolding getEngagementByCoords_def split .
qed

text \<open>
  The point (1.3, 103.8) lies in the box of SGP (the second) and in the later boxes of
  MYS and IDN. With records for MYS and IDN but none for SGP the lookup returns
  \<^verbatim>\<open>null\<close>, for tolerance 5 as for tolerance 50.
\<close>

theorem getEngagementByCoords_ignores_tolerance_witness:
  "in_bounds (the (map_of countryBounds ''SGP'')) (13/10) (1038/10) \<and>
   in_bounds (the (map_of countryBounds ''MYS'')) (13/10) (1038/10) \<and>
   getEngagementByCoords (Some [''MYS'' \<mapsto> (1::nat), ''IDN'' \<mapsto> 2]) 0 (13/10) (1038/10) 5 = Inr (None, 0) \<and>
   getEngagementByCoords (Some [''MYS'' \<mapsto> (1::nat), ''IDN'' \<mapsto> 2]) 0 (13/10) (1038/10) 5
     = getEngagementByCoords (Some [''MYS'' \<mapsto> (1::nat), ''IDN'' \<mapsto> 2]) 0 (13/10) (1038/10) 50"
  using getEngagementByCoords_ignores_tolerance
    [of "Some [''MYS'' \<mapsto> (1::nat), ''IDN'' \<mapsto> 2]" 0 "13/10" "1038/10" 5 50
        "[hd countryBounds]" "''SGP''" "the (map_of countryBounds ''SGP'')" "drop 2 countryBounds"
        "[''MYS'' \<mapsto> (1::nat), ''IDN'' \<mapsto> 2]"]
  by (simp add: getEngagementByCoords_def countryBounds_def in_bounds_def)

section \<open>Properties of hovering\<close>

text \<open>
  C3. The spec: consecutive frames whose pointer position resolves to the same region
  emit one hovered event, at the change. \<^verbatim>\<open>handleGlobeHover\<close> tests
  \<^verbatim>\<open>engagementData !== this.hoveredCountry\<close>, but \<^verbatim>\<open>getEngagementByCoords\<close> builds a
  new object on every call, so the test never fails: two mousemove events over India
  (20, 78), with a record for IND, emit \<^verbatim>\<open>country:hovered\<close> twice.
\<close>

theorem hover_same_region_emits_twice:
  "emitted_of (mousemoves (Some [''IND'' \<mapsto> (1::nat)])
       [OnGlobe (Some (20, 78)), OnGlobe (Some (20, 78))] (new_globe None))
     = Inr [(''country:hovered'', Some ''IND''), (''country:hovered'', Some ''IND'')]"
  by (simp add: emitted_of_def handleGlobeHover_def getEngagementByCoords_def countryBounds_def
      in_bounds_def handleCountryHover_def emit_event_def new_globe_def Let_def)

section \<open>Properties of clicking\<close>

lemma handleCountryClick_no_data:
  "getEngagements engs isoCode = None \<Longrightarrow>
   emitted_of (handleCountryClick engs getCoords now (Some (Feature i isoCode)) g)
     = Inr (emitted g @ [(''country:no-data'', Some isoCode)])"
  by (simp add: handleCountryClick_def emitted_of_def emit_event_def)

text \<open>
  C8. The spec: a click that resolves to a region with no data record emits the no-data
  event and no clicked event. \<^verbatim>\<open>handleCountryClick\<close> does so
  (\<open>handleCountryClick_no_data\<close>), but nothing calls it: the \<^verbatim>\<open>scene:click\<close>
  listener goes through \<^verbatim>\<open>handleGlobeClick\<close>, which emits \<^verbatim>\<open>globe:clicked\<close> when
  the lookup returns \<^verbatim>\<open>null\<close>. A click at (1.3, 103.8), inside the box of SGP, with no
  record for SGP emits \<^verbatim>\<open>globe:clicked\<close> and never \<^verbatim>\<open>country:no-data\<close>.
\<close>

theorem click_without_record_emits_globe_clicked:
  "emitted_of (on_scene_click (Some [''IND'' \<mapsto> (1::nat)]) (OnGlobe (Some (13/10, 1038/10)))
       (new_globe None))
     = Inr [(''globe:clicked'', None)]"
  by (simp add: emitted_of_def handleGlobeClick_def getEngagementByCoords_def countryBounds_def
      in_bounds_def emit_event_def new_globe_def Let_def)

section \<open>Properties of double rounding\<close>

lemma to_double_zero [simp]: "to_double 0 = Num 0"
  by (simp add: to_double_def)

lemma to_double_not_NaN [simp]: "to_double x \<noteq> NaN"
  by (simp add: to_double_def Let_def)

lemma round_half_even_int [simp]: "round_half_even (of_int n) = n"
  by (simp add: round_half_even_def)

lemma binade:
  fixes a :: real
  assumes "2 powi e \<le> a" and "a < 2 powi (e + 1)"
  shows "\<lfloor>log 2 a\<rfloor> = e"
proof -
  have "(0::real) < 2 powi e"
    by simp
  with assms(1) have pos: "0 < a"
    by linarith
  have "(2::real) powr (of_int e) = 2 powi e" "(2::real) powr (of_int (e + 1)) = 2 powi (e + 1)"
    by (rule powr_real_of_int'; simp)+
  with assms have "2 powr (of_int e) \<le> a" "a < 2 powr (of_int (e + 1))"
    by simp_all
  then have "of_int e \<le> log 2 a" "log 2 a < of_int (e + 1)"
    using pos by (simp_all only: le_log_iff log_less_iff one_less_numeral_iff semiring_norm)
  then show ?thesis
    by (simp add: floor_eq_iff)
qed

lemma round_half_even_numeral [simp]: "round_half_even (numeral n) = numeral n"
  using round_half_even_int [of "numeral n"] by simp

lemma round_half_even_le: "y \<le> of_int n \<Longrightarrow> round_half_even y \<le> n"
  unfolding round_half_even_def Let_def by (auto; linarith)

lemma to_double_eval:
  fixes a :: real
  assumes "2 powi e \<le> a" and "a < 2 powi (e + 1)" and "-1022 \<le> e" and "e \<le> 1022"
  shows "to_double a = Num (of_int (round_half_even (a / 2 powi (e - 52))) * 2 powi (e - 52))"
    and "to_double (- a) = Num (- (of_int (round_half_even (a / 2 powi (e - 52))) * 2 powi (e - 52)))"
proof -
  let ?u = "(2::real) powi (e - 52)"
  let ?q = "round_half_even (a / ?u)"
  have "(0::real) < 2 powi e"
    by simp
  with assms(1) have pos: "0 < a"
    by linarith
  have u: "0 < ?u"
    by simp
  have "a / ?u < 2 powi (e + 1) / ?u"
    using assms(2) u by (simp add: divide_strict_right_mono)
  also have "2 powi (e + 1) / ?u = (2::real) powi 53"
    by (simp add: power_int_diff [symmetric])
  finally have "a / ?u \<le> of_int (2 ^ 53)"
    by simp
  then have "?q \<le> 2 ^ 53"
    by (rule round_half_even_le)
  then have "of_int ?q * ?u \<le> of_int (2 ^ 53) * ?u"
    using u by (intro mult_right_mono) simp_all
  also have "of_int (2 ^ 53) * ?u = (2::real) powi 53 * ?u"
    by simp
  also have "\<dots> = (2::real) powi (53 + (e - 52))"
    by (rule power_int_add [symmetric]) simp
  also have "\<dots> = (2::real) powi (e + 1)"
    by (simp add: algebra_simps)
  also have "\<dots> \<le> 2 powi 1023"
    using assms(4) by (intro power_int_increasing) simp_all
  also have "\<dots> < (2::real) ^ 1024"
    by simp
  finally have small: "\<not> (2::real) ^ 1024 \<le> of_int ?q * ?u"
    by simp
  have fl: "\<lfloor>log 2 a\<rfloor> = e"
    using assms(1,2) by (rule binade)
  show "to_double a = Num (of_int ?q * ?u)"
    using pos small fl assms(3) by (simp add: to_double_def Let_def)
  show "to_double (- a) = Num (- (of_int ?q * ?u))"
    using pos small fl assms(3) by (simp add: to_double_def Let_def)
qed

lemma to_double_dyadic:
  fixes x :: real
  assumes "x * 2 ^ k \<in> \<int>" and "\<bar>x\<bar> * 2 ^ k < 2 ^ 53" and "k \<le> 1074"
  shows "to_double x = Num x"
proof (cases "x = 0")
  case True
  then show ?thesis by simp
next
  case False
  define a where "a = \<bar>x\<bar>"
  define e where "e = max \<lfloor>log 2 a\<rfloor> (-1022)"
  define d where "d = nat (52 - int k - e)"
  have pos: "0 < a"
    using False by (simp add: a_def)
  have "a * 2 ^ k = \<bar>x * 2 ^ k\<bar>"
    by (simp add: a_def abs_mult)
  with assms(1) have "a * 2 ^ k \<in> \<int>"
    by simp
  then obtain m :: int where m: "a * 2 ^ k = of_int m"
    by (auto elim: Ints_cases)
  have a_eq: "a = of_int m * 2 powi (- int k)"
  proof -
    have "a = (a * 2 ^ k) / 2 ^ k"
      by simp
    also have "\<dots> = of_int m * 2 powi (- int k)"
      by (simp only: m) (simp add: power_int_minus field_simps)
    finally show ?thesis .
  qed
  have "a < 2 ^ 53 / 2 ^ k"
    using assms(2) by (simp add: a_def field_simps)
  also have "2 ^ 53 / 2 ^ k = (2::real) powi (53 - int k)"
    by (simp add: power_int_diff)
  also have "\<dots> = 2 powr (of_int (53 - int k))"
    by (rule powr_real_of_int' [symmetric]) simp_all
  finally have "log 2 a < of_int (53 - int k)"
    using pos by (simp only: log_less_iff one_less_numeral_iff semiring_norm)
  then have "\<lfloor>log 2 a\<rfloor> < 53 - int k"
    by (simp only: floor_less_iff)
  with assms(3) have e_le: "e \<le> 52 - int k"
    by (simp add: e_def)
  then have d: "int d = 52 - int k - e"
    by (simp add: d_def)
  have "a / 2 powi (e - 52) = of_int m * (2 powi (- int k) * 2 powi (52 - e))"
    by (simp add: a_eq power_int_diff field_simps)
  also have "2 powi (- int k) * 2 powi (52 - e) = (2::real) powi (- int k + (52 - e))"
    by (rule power_int_add [symmetric]) simp
  also have "- int k + (52 - e) = int d"
    using d by simp
  finally have quot: "a / 2 powi (e - 52) = of_int (m * 2 ^ d)"
    by simp
  have "of_int (m * 2 ^ d) * 2 powi (e - 52) = (a / 2 powi (e - 52)) * 2 powi (e - 52)"
    by (simp only: quot)
  also have "\<dots> = a"
    by simp
  finally have r: "of_int (round_half_even (a / 2 powi (e - 52))) * 2 powi (e - 52) = a"
    by (simp only: quot round_half_even_int)
  have "a * 1 \<le> a * 2 ^ k"
    using pos by (intro mult_left_mono) simp_all
  with assms(2) have "a < 2 ^ 53"
    by (simp add: a_def)
  also have "(2::real) ^ 53 \<le> 2 ^ 1024"
    by (rule power_increasing) simp_all
  finally have small: "\<not> (2::real) ^ 1024 \<le> a"
    by simp
  show ?thesis
    using False r small unfolding to_double_def Let_def a_def [symmetric] e_def [symmetric]
    by (auto simp add: a_def)
qed

lemma to_double_int:
  "\<bar>real_of_int n\<bar> < 2 ^ 53 \<Longrightarrow> to_double (of_int n) = Num (of_int n)"
  using to_double_dyadic [of "of_int n" 0] by simp

lemma to_double_small:
  fixes x :: real
  assumes "x * 1024 \<in> \<int>" and "\<bar>x\<bar> * 1024 < 9007199254740992"
  shows "to_double x = Num x"
  using to_double_dyadic [of x 10] assms by simp

lemma to_double_one [simp]: "to_double 1 = Num 1"
  by (rule to_double_small) simp_all

section \<open>Properties of the camera animation\<close>

lemma progress_not_NaN:
  assumes "dur \<noteq> 0"
  shows "ndiv (nsub (Num t) (Num s)) (Num dur) \<noteq> NaN"
proof (cases "to_double (t - s)")
  case (Num y)
  with assms show ?thesis by (simp add: nsub_def)
next
  case NaN
  then show ?thesis by simp
next
  case PosInfinity
  then show ?thesis by (simp add: nsub_def)
next
  case NegInfinity
  then show ?thesis by (simp add: nsub_def)
qed

lemma nmin_one_done:
  assumes "q \<noteq> NaN" and "\<not> nlt (nmin q (Num 1)) (Num 1)"
  shows "nmin q (Num 1) = Num 1"
  using assms by (cases q) (auto simp add: nmin_def split: if_splits)

lemma progress_done:
  assumes "dur \<noteq> 0" and "\<not> in_flight s dur t"
  shows "progress_at s dur t = Num 1"
  using assms progress_not_NaN [OF assms(1), of t s]
  by (simp add: in_flight_def progress_at_def Let_def nmin_one_done)

lemma eased_done: "nsub (Num 1) (pow3 approx (nsub (Num 1) (Num 1))) = Num 1"
  by (simp add: nsub_def)

lemma animate_running:
  assumes "in_flight (startTime tw) (duration tw) t"
  shows "raf_queue (animate approx t tw g) = raf_queue g @ [tw]"
    and "emitted (animate approx t tw g) = emitted g"
    and "scene_camera g \<noteq> None \<Longrightarrow> scene_camera (animate approx t tw g) \<noteq> None"
  using assms by (simp_all add: animate_def Let_def)

lemma animate_done:
  assumes "duration tw \<noteq> 0" and "\<not> in_flight (startTime tw) (duration tw) t"
  shows "raf_queue (animate approx t tw g) = raf_queue g"
    and "emitted (animate approx t tw g) = emitted g @ [(''camera:animation-complete'', None)]"
    and "scene_camera g \<noteq> None \<Longrightarrow>
         scene_camera (animate approx t tw g)
           = Some \<lparr> position = lerpVectors (startPosition tw) (targetPosition tw) (Num 1),
                    lookAt = targetLookAt tw \<rparr>"
  using assms progress_done [OF assms]
  by (auto simp add: animate_def Let_def emit_event_def eased_done)



lemma frame_empty: "raf_queue g = [] \<Longrightarrow> animation_frame approx t g = g"
  by (simp add: animation_frame_def)

lemma frames_empty: "raf_queue g = [] \<Longrightarrow> animation_frames approx ts g = g"
  by (induction ts) (simp_all add: frame_empty)

lemma frame_one:
  "raf_queue g = [B] \<Longrightarrow> animation_frame approx t g = animate approx t B (g\<lparr> raf_queue := [] \<rparr>)"
  by (simp add: animation_frame_def)

lemma frame_two:
  "raf_queue g = [A, B] \<Longrightarrow>
   animation_frame approx t g = animate approx t B (animate approx t A (g\<lparr> raf_queue := [] \<rparr>))"
  by (simp add: animation_frame_def)

lemma frames_running:
  assumes "\<forall>t\<in>set ts. in_flight (startTime A) (duration A) t"
    and "raf_queue g = [A]" and "scene_camera g \<noteq> None"
  shows "raf_queue (animation_frames approx ts g) = [A] \<and>
         emitted (animation_frames approx ts g) = emitted g \<and>
         scene_camera (animation_frames approx ts g) \<noteq> None"
  using assms
proof (induction ts arbitrary: g)
  case Nil
  then show ?case by simp
next
  case (Cons t ts)
  let ?g = "animation_frame approx t g"
  from Cons.prems have t: "in_flight (startTime A) (duration A) t"
    by simp
  have "raf_queue ?g = [A]" "emitted ?g = emitted g" "scene_camera ?g \<noteq> None"
    using Cons.prems(2,3) t by (simp_all add: frame_one animate_running)
  with Cons.IH [of ?g] Cons.prems show ?case
    by simp
qed

lemma frames_last_tween:
  assumes "duration B \<noteq> 0" and "\<exists>t\<in>set ts. \<not> in_flight (startTime B) (duration B) t"
    and "raf_queue g = [B]" and "scene_camera g \<noteq> None"
  shows "raf_queue (animation_frames approx ts g) = [] \<and>
         emitted (animation_frames approx ts g) = emitted g @ [(''camera:animation-complete'', None)] \<and>
         scene_camera (animation_frames approx ts g)
           = Some \<lparr> position = lerpVectors (startPosition B) (targetPosition B) (Num 1),
                    lookAt = targetLookAt B \<rparr>"
  using assms
proof (induction ts arbitrary: g)
  case Nil
  then show ?case by simp
next
  case (Cons t ts)
  let ?g = "animation_frame approx t g"
  show ?case
  proof (cases "in_flight (startTime B) (duration B) t")
    case False
    have "raf_queue ?g = []"
      and "emitted ?g = emitted g @ [(''camera:animation-complete'', None)]"
      and "scene_camera ?g
        = Some \<lparr> position = lerpVectors (startPosition B) (targetPosition B) (Num 1),
                 lookAt = targetLookAt B \<rparr>"
      using Cons.prems(1,3,4) False by (simp_all add: frame_one animate_done)
    then show ?thesis
      by (simp add: frames_empty)
  next
    case True
    have "raf_queue ?g = [B]" "emitted ?g = emitted g" "scene_camera ?g \<noteq> None"
      using Cons.prems(3,4) True by (simp_all add: frame_one animate_running)
    moreover from Cons.prems(2) True
    have "\<exists>t\<in>set ts. \<not> in_flight (startTime B) (duration B) t"
      by simp
    ultimately show ?thesis
      using Cons.IH [of ?g] Cons.prems(1) by simp
  qed
qed

lemma frames_two_tweens:
  assumes "duration A \<noteq> 0" and "duration B \<noteq> 0"
    and "\<forall>t\<in>set ts. in_flight (startTime A) (duration A) t
           \<longrightarrow> in_flight (startTime B) (duration B) t"
    and "\<exists>t\<in>set ts. \<not> in_flight (startTime B) (duration B) t"
    and "raf_queue g = [A, B]" and "scene_camera g \<noteq> None"
  shows "raf_queue (animation_frames approx ts g) = [] \<and>
         emitted (animation_frames approx ts g)
           = emitted g @ [(''camera:animation-complete'', None), (''camera:animation-complete'', None)] \<and>
         scene_camera (animation_frames approx ts g)
           = Some \<lparr> position = lerpVectors (startPosition B) (targetPosition B) (Num 1),
                    lookAt = targetLookAt B \<rparr>"
  using assms
proof (induction ts arbitrary: g)
  case Nil
  then show ?case by simp
next
  case (Cons t ts)
  let ?g = "animation_frame approx t g"
  let ?a = "animate approx t A (g\<lparr> raf_queue := [] \<rparr>)"
  have g: "?g = animate approx t B ?a"
    using Cons.prems(5) by (rule frame_two)
  from Cons.prems(3)
  have order: "in_flight (startTime A) (duration A) t \<Longrightarrow> in_flight (startTime B) (duration B) t"
    by simp
  consider (both) "\<not> in_flight (startTime A) (duration A) t" "\<not> in_flight (startTime B) (duration B) t"
    | (first) "\<not> in_flight (startTime A) (duration A) t" "in_flight (startTime B) (duration B) t"
    | (none) "in_flight (startTime A) (duration A) t" "in_flight (startTime B) (duration B) t"
    using order by blast
  then show ?case
  proof cases
    case both
    have "raf_queue ?a = []" "emitted ?a = emitted g @ [(''camera:animation-complete'', None)]"
      "scene_camera ?a \<noteq> None"
      using Cons.prems(1,6) both(1) by (simp_all add: animate_done)
    then have "raf_queue ?g = []"
      and "emitted ?g = emitted g @ [(''camera:animation-complete'', None), (''camera:animation-complete'', None)]"
      and "scene_camera ?g
        = Some \<lparr> position = lerpVectors (startPosition B) (targetPosition B) (Num 1),
                 lookAt = targetLookAt B \<rparr>"
      using Cons.prems(2) both(2) by (simp_all add: g animate_done)
    then show ?thesis
      by (simp add: frames_empty)
  next
    case first
    have "raf_queue ?a = []" "emitted ?a = emitted g @ [(''camera:animation-complete'', None)]"
      "scene_camera ?a \<noteq> None"
      using Cons.prems(1,6) first(1) by (simp_all add: animate_done)
    then have "raf_queue ?g = [B]"
      and "emitted ?g = emitted g @ [(''camera:animation-complete'', None)]"
      and "scene_camera ?g \<noteq> None"
      using first(2) by (simp_all add: g animate_running)
    moreover from Cons.prems(4) first(2)
    have "\<exists>t\<in>set ts. \<not> in_flight (startTime B) (duration B) t"
      by auto
    ultimately show ?thesis
      using frames_last_tween [of B ts ?g approx] Cons.prems(2) by simp
  next
    case none
    have "raf_queue ?a = [A]" "emitted ?a = emitted g" "scene_camera ?a \<noteq> None"
      using Cons.prems(6) none(1) by (simp_all add: animate_running)
    then have "raf_queue ?g = [A, B]" "emitted ?g = emitted g" "scene_camera ?g \<noteq> None"
      using none(2) by (simp_all add: g animate_running)
    moreover from Cons.prems(4) none(2)
    have "\<exists>t\<in>set ts. \<not> in_flight (startTime B) (duration B) t"
      by auto
    moreover from Cons.prems(3)
    have "\<forall>t\<in>set ts. in_flight (startTime A) (duration A) t
           \<longrightarrow> in_flight (startTime B) (duration B) t"
      by simp
    ultimately show ?thesis
      using Cons.IH [of ?g] Cons.prems(1,2) by simp
  qed
qed

lemma count_emitted_append:
  "emitted g' = emitted g @ es \<Longrightarrow>
   count_emitted name g' = count_emitted name g + length (filter (\<lambda>ev. fst ev = name) es)"
  by (simp add: count_emitted_def)

lemma frames_both_running:
  assumes "\<forall>t\<in>set ts. in_flight (startTime A) (duration A) t \<and> in_flight (startTime B) (duration B) t"
    and "raf_queue g = [A, B]"
  shows "raf_queue (animation_frames approx ts g) = [A, B]"
  using assms
proof (induction ts arbitrary: g)
  case Nil
  then show ?case by simp
next
  case (Cons t ts)
  let ?g = "animation_frame approx t g"
  from Cons.prems have "raf_queue ?g = [A, B]"
    by (simp add: frame_two animate_running)
  with Cons.IH [of ?g] Cons.prems show ?case
    by simp
qed

text \<open>
  C1, as the code has it. \<^verbatim>\<open>animateCameraTo\<close> keeps no handle of the tween it starts and
  cancels nothing, so a second request adds a second closure beside the first. Take a
  camera with no tween waiting, a request A, frames at each of which A is in flight (its
  \<^verbatim>\<open>progress < 1\<close> test holds), a request B, and further frames at each of which B is in
  flight whenever A is, B's test failing at one of them. Then:

    \<^item> after B's request both closures wait for the next frame, A's first, and B's start
      position is the position the camera had at B's request;

    \<^item> they stay so, A's first, over every run of frames at which A is in flight;

    \<^item> in the end the completion event has been emitted twice, once by each tween;

    \<^item> no closure is left waiting;

    \<^item> the camera looks at B's look-at point, from the position
      \<^verbatim>\<open>lerpVectors(start, target, 1)\<close> of B's start and target, computed in doubles.
      Nothing of A's target is in it.
\<close>

theorem superseded_tween_both_complete:
  assumes "scene_camera g = Some cam" and "raf_queue g = []"
    and "0 < dA" and "0 < dB"
    and "\<forall>t\<in>set tsA. in_flight tA dA t"
    and "\<forall>t\<in>set tsB. in_flight tA dA t \<longrightarrow> in_flight tB dB t"
    and "\<exists>t\<in>set tsB. \<not> in_flight tB dB t"
  shows "\<exists>camB.
     scene_camera (animation_frames approx tsA (animateCameraTo pA lA dA tA g)) = Some camB \<and>
     raf_queue (animateCameraTo pB lB dB tB
                 (animation_frames approx tsA (animateCameraTo pA lA dA tA g)))
       = [\<lparr> startPosition = position cam, targetPosition = pA, targetLookAt = lA,
             startTime = tA, duration = dA \<rparr>,
          \<lparr> startPosition = position camB, targetPosition = pB, targetLookAt = lB,
             startTime = tB, duration = dB \<rparr>] \<and>
     (\<forall>n. (\<forall>t\<in>set (take n tsB). in_flight tA dA t) \<longrightarrow>
        raf_queue (animation_frames approx (take n tsB) (animateCameraTo pB lB dB tB
                    (animation_frames approx tsA (animateCameraTo pA lA dA tA g))))
          = [\<lparr> startPosition = position cam, targetPosition = pA, targetLookAt = lA,
                startTime = tA, duration = dA \<rparr>,
             \<lparr> startPosition = position camB, targetPosition = pB, targetLookAt = lB,
                startTime = tB, duration = dB \<rparr>]) \<and>
     count_emitted ''camera:animation-complete''
         (animation_frames approx tsB (animateCameraTo pB lB dB tB
            (animation_frames approx tsA (animateCameraTo pA lA dA tA g))))
       = count_emitted ''camera:animation-complete'' g + 2 \<and>
     raf_queue
         (animation_frames approx tsB (animateCameraTo pB lB dB tB
            (animation_frames approx tsA (animateCameraTo pA lA dA tA g)))) = [] \<and>
     scene_camera
         (animation_frames approx tsB (animateCameraTo pB lB dB tB
            (animation_frames approx tsA (animateCameraTo pA lA dA tA g))))
       = Some \<lparr> position = lerpVectors (position camB) pB (Num 1), lookAt = lB \<rparr>"
proof -
  define A where "A = \<lparr> startPosition = position cam, targetPosition = pA, targetLookAt = lA,
    startTime = tA, duration = dA \<rparr>"
  define g1 where "g1 = animateCameraTo pA lA dA tA g"
  define g2 where "g2 = animation_frames approx tsA g1"
  have g1: "raf_queue g1 = [A]" "emitted g1 = emitted g" "scene_camera g1 \<noteq> None"
    using assms(1,2) by (simp_all add: g1_def animateCameraTo_def A_def)
  have "raf_queue g2 = [A] \<and> emitted g2 = emitted g1 \<and> scene_camera g2 \<noteq> None"
    unfolding g2_def using assms(5) g1(1,3) by (intro frames_running) (simp_all add: A_def)
  then have g2: "raf_queue g2 = [A]" "emitted g2 = emitted g" "scene_camera g2 \<noteq> None"
    using g1(2) by simp_all
  from g2(3) obtain camB where camB: "scene_camera g2 = Some camB"
    by auto
  define B where "B = \<lparr> startPosition = position camB, targetPosition = pB, targetLookAt = lB,
    startTime = tB, duration = dB \<rparr>"
  define g3 where "g3 = animateCameraTo pB lB dB tB g2"
  define g4 where "g4 = animation_frames approx tsB g3"
  have g3: "raf_queue g3 = [A, B]" "emitted g3 = emitted g" "scene_camera g3 \<noteq> None"
    using camB g2 by (simp_all add: g3_def animateCameraTo_def B_def)
  have "raf_queue g4 = [] \<and>
     emitted g4 = emitted g3 @ [(''camera:animation-complete'', None), (''camera:animation-complete'', None)] \<and>
     scene_camera g4
       = Some \<lparr> position = lerpVectors (startPosition B) (targetPosition B) (Num 1),
                lookAt = targetLookAt B \<rparr>"
    unfolding g4_def using assms(3,4,6,7) g3(1,3)
    by (intro frames_two_tweens) (simp_all add: A_def B_def)
  then have "raf_queue g4 = []"
    and "emitted g4 = emitted g @ [(''camera:animation-complete'', None), (''camera:animation-complete'', None)]"
    and "scene_camera g4 = Some \<lparr> position = lerpVectors (position camB) pB (Num 1), lookAt = lB \<rparr>"
    using g3(2) by (simp_all add: B_def)
  then have "raf_queue g4 = []"
    and "count_emitted ''camera:animation-complete'' g4 = count_emitted ''camera:animation-complete'' g + 2"
    and "scene_camera g4 = Some \<lparr> position = lerpVectors (position camB) pB (Num 1), lookAt = lB \<rparr>"
    by (simp_all add: count_emitted_append)
  moreover have "\<forall>n. (\<forall>t\<in>set (take n tsB). in_flight tA dA t) \<longrightarrow>
      raf_queue (animation_frames approx (take n tsB) g3) = [A, B]"
  proof (intro allI impI)
    fix n
    assume "\<forall>t\<in>set (take n tsB). in_flight tA dA t"
    with assms(6) have "\<forall>t\<in>set (take n tsB).
        in_flight (startTime A) (duration A) t \<and> in_flight (startTime B) (duration B) t"
      by (auto simp add: A_def B_def dest: in_set_takeD)
    then show "raf_queue (animation_frames approx (take n tsB) g3) = [A, B]"
      using g3(1) by (rule frames_both_running)
  qed
  ultimately show ?thesis
    using camB g3(1) unfolding g4_def g3_def g2_def g1_def A_def B_def by blast
qed

lemmas run_defs = preemption_run_def short_second_run_def rounding_run_def start_globe_def
  new_globe_def origin_def vec_def rounded_cube_def animateCameraTo_def animation_frame_def
  animate_def in_flight_def progress_at_def lerpVectors_def lerp_axis_def emit_event_def
  nsub_def nmin_def Let_def count_emitted_def


text \<open>
  The run \<open>preemption_run\<close>: A is in flight at 1000 and 1500 and done at 2000, B is in
  flight at 1500 and 2000 and done at 3000. Two completion events are emitted, and the
  camera ends at (0, 50, 500), looking at the origin.
\<close>

theorem superseded_tween_both_complete_witness:
  "in_flight 0 2000 1000 \<and> in_flight 0 2000 1500 \<and> in_flight 1000 2000 1500 \<and>
   \<not> in_flight 0 2000 2000 \<and> in_flight 1000 2000 2000 \<and> \<not> in_flight 1000 2000 3000 \<and>
   count_emitted ''camera:animation-complete'' preemption_run = 2 \<and>
   raf_queue preemption_run = [] \<and>
   scene_camera preemption_run = Some \<lparr> position = vec 0 50 500, lookAt = origin \<rparr>"
proof -
  have flights: "in_flight 0 2000 1000" "in_flight 0 2000 1500" "in_flight 1000 2000 1500"
    "\<not> in_flight 0 2000 2000" "in_flight 1000 2000 2000" "\<not> in_flight 1000 2000 3000"
    "\<not> in_flight 0 2000 3000"
    by (simp_all add: in_flight_def progress_at_def nsub_def nmin_def Let_def to_double_small)
  have cam: "scene_camera start_globe = Some \<lparr> position = vec 0 0 400, lookAt = origin \<rparr>"
    and queue: "raf_queue start_globe = []"
    and none: "count_emitted ''camera:animation-complete'' start_globe = 0"
    by (simp_all add: start_globe_def new_globe_def count_emitted_def)
  have first: "\<forall>t\<in>set [1000]. in_flight 0 2000 t"
    using flights by simp
  have order: "\<forall>t\<in>set [1500, 2000, 3000]. in_flight 0 2000 t \<longrightarrow> in_flight 1000 2000 t"
    using flights by simp
  have last: "\<exists>t\<in>set [1500, 2000, 3000]. \<not> in_flight 1000 2000 t"
    using flights by simp
  have durations: "(0::real) < 2000"
    by simp
  from superseded_tween_both_complete
    [where approx = rounded_cube and pA = "vec 300 0 0" and lA = origin
       and pB = "vec 0 50 500" and lB = origin, OF cam queue durations durations first order last]
  have "count_emitted ''camera:animation-complete'' preemption_run
      = count_emitted ''camera:animation-complete'' start_globe + 2"
    and "raf_queue preemption_run = []"
    unfolding preemption_run_def by auto
  moreover have "scene_camera preemption_run = Some \<lparr> position = vec 0 50 500, lookAt = origin \<rparr>"
    by (simp add: run_defs to_double_small)
  ultimately show ?thesis
    using flights none by simp
qed


lemma diff_rounded:
  "to_double (- (34028979719211881 / 70368744177664)) = Num (- (4253622464901485 / 8796093022208))"
  using to_double_eval(2) [of 8 "34028979719211881 / 70368744177664"]
  by (simp add: round_half_even_def)

lemma diff_exact:
  "to_double (- (4253622464901485 / 8796093022208)) = Num (- (4253622464901485 / 8796093022208))"
  using to_double_dyadic [of "- (4253622464901485 / 8796093022208)" 43] by simp

lemma sum_exact:
  "to_double (- (735185256018285 / 8796093022208)) = Num (- (735185256018285 / 8796093022208))"
  using to_double_dyadic [of "- (735185256018285 / 8796093022208)" 43] by simp

text \<open>
  Three runs against C1 as stated.

  In \<open>preemption_run\<close> the completion event is emitted twice, not once: the superseded
  tween completes too.

  In \<open>short_second_run\<close> the later tween is the shorter one and completes first; the
  earlier tween runs on and leaves the camera at its own target (300, 0, 0), not at
  (0, 50, 500).

  In \<open>rounding_run\<close> the camera ends at \<open>z = -83.5808868962755\<close>, the double
  \<open>-735185256018285 / 2 ^ 43\<close>, one unit in the last place away from the target of the
  later tween: \<open>400 + (z - 400) * 1\<close> rounds twice.
\<close>

theorem preemption_emits_two_completions:
  "count_emitted ''camera:animation-complete'' preemption_run \<noteq> 1 \<and>
   emitted preemption_run = [(''camera:animation-complete'', None), (''camera:animation-complete'', None)] \<and>
   scene_camera short_second_run = Some \<lparr> position = vec 300 0 0, lookAt = origin \<rparr> \<and>
   vec 300 0 0 \<noteq> vec 0 50 500 \<and>
   scene_camera rounding_run
     = Some \<lparr> position = vec 0 0 (- 735185256018285 / 2 ^ 43), lookAt = origin \<rparr> \<and>
   vec 0 0 (- 735185256018285 / 2 ^ 43) \<noteq> vec 0 0 (- 5881482048146281 / 2 ^ 46)"
proof (intro conjI)
  show "emitted preemption_run
      = [(''camera:animation-complete'', None), (''camera:animation-complete'', None)]"
    by (simp add: run_defs to_double_small)
  then show "count_emitted ''camera:animation-complete'' preemption_run \<noteq> 1"
    by (simp add: count_emitted_def)
  show "scene_camera short_second_run = Some \<lparr> position = vec 300 0 0, lookAt = origin \<rparr>"
    by (simp add: run_defs to_double_small)
  show "vec 300 0 0 \<noteq> vec 0 50 500"
    by (simp add: vec_def)
  show "scene_camera rounding_run
      = Some \<lparr> position = vec 0 0 (- 735185256018285 / 2 ^ 43), lookAt = origin \<rparr>"
    by (simp add: run_defs to_double_small diff_rounded diff_exact sum_exact)
  show "vec 0 0 (- 735185256018285 / 2 ^ 43) \<noteq> vec 0 0 (- 5881482048146281 / 2 ^ 46)"
    by (simp add: vec_def)
qed

section \<open>Properties of the gesture classification\<close>

lemma handleMouseMove_fields:
  "mouseDownTime (handleMouseMove q c) = mouseDownTime c"
  "clickThreshold (handleMouseMove q c) = clickThreshold c"
  "lastMousePosition (handleMouseMove q c) = q"
  "count_control ''controls:click'' (handleMouseMove q c) = count_control ''controls:click'' c"
  "isDragging (handleMouseMove q c)
     = (isDragging c \<or> \<not> vec2_length (fst q - fst (lastMousePosition c), snd q - snd (lastMousePosition c)) \<le> 5)"
  by (auto simp add: handleMouseMove_def control_emit_def count_control_def Let_def)

lemma moves_fields:
  "lastMousePosition c = p \<Longrightarrow>
   mouseDownTime (foldl (\<lambda>c' q. handleMouseMove q c') c moves) = mouseDownTime c \<and>
   clickThreshold (foldl (\<lambda>c' q. handleMouseMove q c') c moves) = clickThreshold c \<and>
   count_control ''controls:click'' (foldl (\<lambda>c' q. handleMouseMove q c') c moves)
     = count_control ''controls:click'' c \<and>
   isDragging (foldl (\<lambda>c' q. handleMouseMove q c') c moves)
     = (isDragging c \<or> \<not> list_all (\<lambda>d. d \<le> 5) (step_lengths p moves))"
proof (induction moves arbitrary: c p)
  case Nil
  then show ?case by simp
next
  case (Cons q qs)
  have "lastMousePosition (handleMouseMove q c) = q"
    by (rule handleMouseMove_fields)
  from Cons.IH [OF this] Cons.prems show ?case
    by (auto simp add: handleMouseMove_fields)
qed

lemma handleMouseUp_click:
  "count_control ''controls:click'' (handleMouseUp now c)
     = (if \<not> isDragging c \<and> now - mouseDownTime c < clickThreshold c
        then Suc (count_control ''controls:click'' c) else count_control ''controls:click'' c)"
  by (simp add: handleMouseUp_def handleClick_def control_emit_def count_control_def Let_def)

lemma vec2_length_le5: "(vec2_length v \<le> 5) = (fst v * fst v + snd v * snd v \<le> 25)"
proof -
  have "(sqrt (fst v * fst v + snd v * snd v) \<le> sqrt 25) = (fst v * fst v + snd v * snd v \<le> 25)"
    by (rule real_sqrt_le_iff)
  moreover have "sqrt 25 = (5::real)"
    by (rule real_sqrt_unique) simp_all
  ultimately show ?thesis
    by (simp add: vec2_length_def)
qed

lemma sqrt_nine: "sqrt 9 = (3::real)"
  by (rule real_sqrt_unique) simp_all

text \<open>
  C4, as the code has it. \<^verbatim>\<open>handleMouseMove\<close> measures each move against the position
  of the previous mouse event, not against the press position, and sets \<^verbatim>\<open>isDragging\<close>
  when that one step is longer than 5 pixels. So a press-to-release cycle is classified
  as a click (\<^verbatim>\<open>handleClick\<close> runs) if and only if no single step between successive
  pointer positions is longer than 5 pixels and the release comes less than 200 ms after
  the press.
\<close>

theorem click_iff_small_steps_and_short:
  assumes "clickThreshold c = 200"
  shows "classified_click t0 p0 moves t1 c
           \<longleftrightarrow> list_all (\<lambda>d. d \<le> 5) (step_lengths p0 moves) \<and> t1 - t0 < 200"
proof -
  let ?d = "handleMouseDown t0 p0 c"
  have d: "lastMousePosition ?d = p0" "mouseDownTime ?d = t0" "clickThreshold ?d = 200"
    "\<not> isDragging ?d" "count_control ''controls:click'' ?d = count_control ''controls:click'' c"
    using assms by (simp_all add: handleMouseDown_def control_emit_def count_control_def)
  from moves_fields [OF d(1), of moves] d
  show ?thesis
    by (simp add: classified_click_def press_release_def handleMouseUp_click)
qed

text \<open>
  One move of 3 pixels released after 150 ms is a click; one move of 10 pixels released
  after 150 ms is a drag; one move of 3 pixels released after 250 ms is a drag.
\<close>

theorem click_iff_small_steps_and_short_witness:
  "clickThreshold new_controls = 200 \<and>
   classified_click 0 (100, 100) [(103, 100)] 150 new_controls \<and>
   \<not> classified_click 0 (100, 100) [(110, 100)] 150 new_controls \<and>
   \<not> classified_click 0 (100, 100) [(103, 100)] 250 new_controls"
  using click_iff_small_steps_and_short [of new_controls 0 "(100, 100)" "[(103, 100)]" 150]
    click_iff_small_steps_and_short [of new_controls 0 "(100, 100)" "[(110, 100)]" 150]
    click_iff_small_steps_and_short [of new_controls 0 "(100, 100)" "[(103, 100)]" 250]
  by (simp add: new_controls_def vec2_length_le5)

text \<open>
  C4 as the spec states it (cumulative movement below 5 pixels) fails: two moves of
  3 pixels each, 6 pixels in all, released after 150 ms, are classified as a click.
\<close>

theorem two_small_steps_classified_click:
  "classified_click 0 (100, 100) [(103, 100), (106, 100)] 150 new_controls \<and>
   \<not> spec_click 0 (100, 100) [(103, 100), (106, 100)] 150"
  by (simp add: classified_click_def press_release_def handleMouseUp_def handleMouseDown_def
      handleMouseMove_def handleClick_def control_emit_def count_control_def new_controls_def
      Let_def spec_click_def vec2_length_def sqrt_nine)

section \<open>Properties of the auto-rotate idle timer\<close>

lemma timer_inv_cases:
  "timer_inv c \<longleftrightarrow> 0 < next_timer c \<and>
     (timers c = [] \<or> (\<exists>h due. timers c = [(h, due)] \<and> autoRotateTimeout c = Some h \<and> h \<noteq> 0))"
  by (auto simp add: timer_inv_def split: list.splits)

lemma timer_inv_cong:
  "timers c' = timers c \<Longrightarrow> next_timer c' = next_timer c \<Longrightarrow>
   autoRotateTimeout c' = autoRotateTimeout c \<Longrightarrow> timer_inv c' = timer_inv c"
  by (simp add: timer_inv_cases)

lemma control_emit_inv [simp]: "timer_inv (control_emit name flag c) = timer_inv c"
  by (rule timer_inv_cong) (simp_all add: control_emit_def)

lemma stopAutoRotate_timers:
  "timer_inv c \<Longrightarrow> timers (stopAutoRotate c) = []"
  by (auto simp add: timer_inv_cases stopAutoRotate_def Let_def split: option.splits)

lemma stopAutoRotate_fields:
  "next_timer (stopAutoRotate c) = next_timer c"
  "control_emitted (stopAutoRotate c) = control_emitted c"
  "isInteracting (stopAutoRotate c) = isInteracting c"
  by (simp_all add: stopAutoRotate_def Let_def split: option.splits)

lemma stopAutoRotate_inv: "timer_inv c \<Longrightarrow> timer_inv (stopAutoRotate c)"
  using stopAutoRotate_timers [of c]
  by (simp add: timer_inv_cases stopAutoRotate_fields)

lemma scheduleAutoRotate_timers:
  "timer_inv c \<Longrightarrow> timers (scheduleAutoRotate now c) = [(next_timer c, now + 3000)]"
  by (simp add: scheduleAutoRotate_def Let_def stopAutoRotate_timers stopAutoRotate_fields)

lemma scheduleAutoRotate_fields:
  "control_emitted (scheduleAutoRotate now c) = control_emitted c"
  "isInteracting (scheduleAutoRotate now c) = isInteracting c"
  by (simp_all add: scheduleAutoRotate_def Let_def stopAutoRotate_fields)

lemma scheduleAutoRotate_inv: "timer_inv c \<Longrightarrow> timer_inv (scheduleAutoRotate now c)"
  using scheduleAutoRotate_timers [of c now]
  by (simp add: timer_inv_cases) (simp add: scheduleAutoRotate_def Let_def stopAutoRotate_fields)

lemma autoRotate_callback_fields:
  "timers (autoRotate_callback c) = timers c"
  "next_timer (autoRotate_callback c) = next_timer c"
  "autoRotateTimeout (autoRotate_callback c) = autoRotateTimeout c"
  by (simp_all add: autoRotate_callback_def control_emit_def)

lemma callbacks_fields:
  "timers (foldl (\<lambda>c' tm. autoRotate_callback c') c tms) = timers c \<and>
   next_timer (foldl (\<lambda>c' tm. autoRotate_callback c') c tms) = next_timer c \<and>
   autoRotateTimeout (foldl (\<lambda>c' tm. autoRotate_callback c') c tms) = autoRotateTimeout c"
  by (induction tms arbitrary: c) (simp_all add: autoRotate_callback_fields)

lemma run_timers_inv: "timer_inv c \<Longrightarrow> timer_inv (run_timers now c)"
proof -
  assume inv: "timer_inv c"
  let ?c = "c\<lparr> timers := filter (\<lambda>tm. \<not> snd tm \<le> now) (timers c) \<rparr>"
  from inv have "timer_inv ?c"
    by (auto simp add: timer_inv_def split: list.splits if_splits)
  moreover have "timer_inv (run_timers now c) = timer_inv ?c"
    unfolding run_timers_def by (rule timer_inv_cong) (simp_all add: callbacks_fields)
  ultimately show ?thesis
    by simp
qed

lemma run_timers_none: "timers c = [] \<Longrightarrow> run_timers now c = c"
  by (simp add: run_timers_def)

lemma count_callback:
  "count_control ''controls:auto-rotate-started'' (autoRotate_callback c)
     \<le> Suc (count_control ''controls:auto-rotate-started'' c)"
  by (simp add: autoRotate_callback_def control_emit_def count_control_def)

lemma run_timers_single:
  "timers c = [tm] \<Longrightarrow>
   count_control ''controls:auto-rotate-started'' (run_timers now c)
     \<le> Suc (count_control ''controls:auto-rotate-started'' c)"
  using count_callback [of "c\<lparr> timers := [] \<rparr>"]
  by (simp add: run_timers_def count_control_def)

lemma step_inv: "timer_inv c \<Longrightarrow> timer_inv (step a c)"
proof (cases a)
  case Setup
  then show "timer_inv c \<Longrightarrow> ?thesis" by (simp add: timer_inv_cases setupOrbitControls_def)
next
  case (OrbitStart now)
  assume "timer_inv c"
  then have "timer_inv (c\<lparr> isInteracting := True, lastInteractionTime := now \<rparr>)"
    by (simp add: timer_inv_cases)
  then have "timer_inv (stopAutoRotate (c\<lparr> isInteracting := True, lastInteractionTime := now \<rparr>))"
    by (rule stopAutoRotate_inv)
  then show ?thesis
    by (simp add: OrbitStart orbit_start_def control_emit_def timer_inv_cases)
next
  case (OrbitEnd now)
  assume "timer_inv c"
  then have "timer_inv (c\<lparr> isInteracting := False \<rparr>)"
    by (simp add: timer_inv_cases)
  then have "timer_inv (scheduleAutoRotate now (c\<lparr> isInteracting := False \<rparr>))"
    by (rule scheduleAutoRotate_inv)
  then show ?thesis
    by (simp add: OrbitEnd orbit_end_def control_emit_def timer_inv_cases)
next
  case (Schedule now)
  then show "timer_inv c \<Longrightarrow> ?thesis" by (simp add: scheduleAutoRotate_inv)
next
  case Stop
  then show "timer_inv c \<Longrightarrow> ?thesis" by (simp add: stopAutoRotate_inv)
next
  case (Toggle now)
  assume inv: "timer_inv c"
  show ?thesis
  proof (cases "orbit_autoRotate c")
    case None
    with inv show ?thesis by (simp add: Toggle toggleAutoRotate_def)
  next
    case (Some a)
    let ?c1 = "c\<lparr> orbit_autoRotate := Some (\<not> a) \<rparr>"
    from inv have "timer_inv ?c1"
      by (simp add: timer_inv_cases)
    then have "timer_inv (scheduleAutoRotate now ?c1)" "timer_inv (stopAutoRotate ?c1)"
      by (simp_all add: scheduleAutoRotate_inv stopAutoRotate_inv)
    then show ?thesis
      by (cases a) (simp_all add: Toggle toggleAutoRotate_def Some Let_def)
  qed
next
  case Cancel
  then show "timer_inv c \<Longrightarrow> ?thesis"
    by (simp add: cancelInteraction_def control_emit_def timer_inv_cases)
next
  case Disable
  assume "timer_inv c"
  then have "timer_inv (c\<lparr> isEnabled := False \<rparr>)"
    by (simp add: timer_inv_cases)
  then have "timer_inv (stopAutoRotate (c\<lparr> isEnabled := False \<rparr>))"
    by (rule stopAutoRotate_inv)
  then show ?thesis
    by (simp add: Disable disable_def control_emit_def timer_inv_cases)
next
  case (Timers now)
  then show "timer_inv c \<Longrightarrow> ?thesis" by (simp add: run_timers_inv)
next
  case (MouseDown now p)
  then show "timer_inv c \<Longrightarrow> ?thesis"
    by (simp add: handleMouseDown_def control_emit_def timer_inv_cases)
next
  case (MouseMove p)
  then show "timer_inv c \<Longrightarrow> ?thesis"
    by (simp add: handleMouseMove_def control_emit_def timer_inv_cases Let_def)
next
  case (MouseUp now)
  then show "timer_inv c \<Longrightarrow> ?thesis"
    by (simp add: handleMouseUp_def handleClick_def control_emit_def timer_inv_cases Let_def)
qed

lemma run_controls_inv: "timer_inv c \<Longrightarrow> timer_inv (run_controls as c)"
  by (induction as arbitrary: c) (simp_all add: step_inv)

lemma new_controls_inv: "timer_inv new_controls"
  by (simp add: timer_inv_cases new_controls_def)


lemma orbit_start_timers: "timer_inv c \<Longrightarrow> timers (orbit_start now c) = []"
proof -
  assume "timer_inv c"
  then have "timer_inv (c\<lparr> isInteracting := True, lastInteractionTime := now \<rparr>)"
    by (simp add: timer_inv_cases)
  then have "timers (stopAutoRotate (c\<lparr> isInteracting := True, lastInteractionTime := now \<rparr>)) = []"
    by (rule stopAutoRotate_timers)
  then show ?thesis
    by (simp add: orbit_start_def control_emit_def)
qed

lemma orbit_start_count:
  "count_control ''controls:auto-rotate-started'' (orbit_start now c)
     = count_control ''controls:auto-rotate-started'' c"
  by (simp add: orbit_start_def control_emit_def count_control_def stopAutoRotate_fields)

lemma scheduleAutoRotate_count:
  "count_control ''controls:auto-rotate-started'' (scheduleAutoRotate now c)
     = count_control ''controls:auto-rotate-started'' c"
  by (simp add: count_control_def scheduleAutoRotate_fields)

lemma idle_timer_fires_when_left_alone:
  "count_control ''controls:auto-rotate-started''
     (run_controls [Setup, OrbitEnd 0, Timers 2999] new_controls) = 0 \<and>
   count_control ''controls:auto-rotate-started''
     (run_controls [Setup, OrbitEnd 0, Timers 2999, Timers 3000, Timers 9000] new_controls) = 1 \<and>
   count_control ''controls:auto-rotate-started''
     (run_controls [Setup, OrbitEnd 0, OrbitStart 0, Timers 3000, Timers 9000] new_controls) = 0 \<and>
   count_control ''controls:auto-rotate-started''
     (run_controls [Setup, Schedule 0, Schedule 10, Timers 3000, Timers 3010, Timers 9000] new_controls) = 1"
  by (auto simp add: new_controls_def setupOrbitControls_def orbit_end_def orbit_start_def
      scheduleAutoRotate_def stopAutoRotate_def run_timers_def autoRotate_callback_def
      control_emit_def count_control_def Let_def)

text \<open>
  C5. Take any state a \<^verbatim>\<open>Controls\<close> object can be in (any sequence of actions after
  construction). When an interaction starts, no timeout is left pending, whatever was
  scheduled before, and running the timers at any later time emits no
  \<^verbatim>\<open>controls:auto-rotate-started\<close>; so too when the idle timer is scheduled and the
  interaction starts at once, before the event loop runs. Scheduling twice leaves exactly one pending
  timeout, and running the timers afterwards emits at most one such event.
\<close>

theorem idle_timer_cancelled_and_single:
  "timers (orbit_start t1 (run_controls acts new_controls)) = [] \<and>
   count_control ''controls:auto-rotate-started''
       (run_timers t (orbit_start t1 (run_controls acts new_controls)))
     = count_control ''controls:auto-rotate-started'' (run_controls acts new_controls) \<and>
   count_control ''controls:auto-rotate-started''
       (run_timers t (orbit_start t1 (scheduleAutoRotate t0 (run_controls acts new_controls))))
     = count_control ''controls:auto-rotate-started'' (run_controls acts new_controls) \<and>
   length (timers (scheduleAutoRotate t1 (scheduleAutoRotate t0 (run_controls acts new_controls)))) = 1 \<and>
   count_control ''controls:auto-rotate-started''
       (run_timers t (scheduleAutoRotate t1 (scheduleAutoRotate t0 (run_controls acts new_controls))))
     \<le> Suc (count_control ''controls:auto-rotate-started'' (run_controls acts new_controls))"
proof -
  define c where "c = run_controls acts new_controls"
  have inv: "timer_inv c"
    unfolding c_def by (rule run_controls_inv) (rule new_controls_inv)
  then have s0: "timer_inv (scheduleAutoRotate t0 c)"
    by (rule scheduleAutoRotate_inv)
  have a: "timers (orbit_start t1 c) = []"
    using inv by (rule orbit_start_timers)
  from a have "run_timers t (orbit_start t1 c) = orbit_start t1 c"
    by (rule run_timers_none)
  then have a': "count_control ''controls:auto-rotate-started'' (run_timers t (orbit_start t1 c))
      = count_control ''controls:auto-rotate-started'' c"
    by (simp add: orbit_start_count)
  have "timers (orbit_start t1 (scheduleAutoRotate t0 c)) = []"
    using s0 by (rule orbit_start_timers)
  then have "run_timers t (orbit_start t1 (scheduleAutoRotate t0 c))
      = orbit_start t1 (scheduleAutoRotate t0 c)"
    by (rule run_timers_none)
  then have b: "count_control ''controls:auto-rotate-started''
      (run_timers t (orbit_start t1 (scheduleAutoRotate t0 c)))
      = count_control ''controls:auto-rotate-started'' c"
    by (simp add: orbit_start_count scheduleAutoRotate_count)
  have two: "timers (scheduleAutoRotate t1 (scheduleAutoRotate t0 c))
      = [(next_timer (scheduleAutoRotate t0 c), t1 + 3000)]"
    using s0 by (rule scheduleAutoRotate_timers)
  then have d: "length (timers (scheduleAutoRotate t1 (scheduleAutoRotate t0 c))) = 1"
    by simp
  have "count_control ''controls:auto-rotate-started''
      (run_timers t (scheduleAutoRotate t1 (scheduleAutoRotate t0 c)))
      \<le> Suc (count_control ''controls:auto-rotate-started'' (scheduleAutoRotate t1 (scheduleAutoRotate t0 c)))"
    using two by (rule run_timers_single)
  then have e: "count_control ''controls:auto-rotate-started''
      (run_timers t (scheduleAutoRotate t1 (scheduleAutoRotate t0 c)))
      \<le> Suc (count_control ''controls:auto-rotate-started'' c)"
    by (simp add: scheduleAutoRotate_count)
  from a a' b d e show ?thesis
    unfolding c_def by simp
qed

section \<open>Properties of the arc validation\<close>

lemma finite_between_iff:
  "finite_between lo hi n = (\<not> isNaN n \<and> ge_const n lo \<and> le_const n hi)"
  by (cases n) auto

lemma parseFloat_parsed: "v \<noteq> JObject None \<Longrightarrow> parseFloat v = Inr (parsed v)"
  by (cases v rule: parseFloat.cases) (simp_all add: parsed_def)

lemma isValid_no_raise: "\<not> raises e \<Longrightarrow> isValid e = Inr (parses_in_range e)"
proof (cases e)
  case NullEntry
  assume "\<not> raises e"
  with NullEntry show ?thesis by simp
next
  case (ValueEntry v)
  have "parsed JUndefined = NaN"
    by (simp add: parsed_def parse_float_def unsigned_literal_def is_space_def is_digit_def)
  with ValueEntry show ?thesis
    by (simp add: isValid_def parsed_property_def parsed_def)
next
  case (ArcEntry a)
  assume "\<not> raises e"
  with ArcEntry have "parseFloat (startLat a) = Inr (parsed (startLat a))"
    and "parseFloat (startLng a) = Inr (parsed (startLng a))"
    and "parseFloat (endLat a) = Inr (parsed (endLat a))"
    and "parseFloat (endLng a) = Inr (parsed (endLng a))"
    by (simp_all add: parseFloat_parsed)
  with ArcEntry show ?thesis
    by (auto simp add: isValid_def parsed_property_def finite_between_iff)
qed

lemma filter_arcs_no_raise:
  "\<forall>e\<in>set es. \<not> raises e \<Longrightarrow>
   filter_arcs es out =
     (Inr (filter parses_in_range es),
      out @ map Warn_invalid_arc (filter (\<lambda>e. \<not> parses_in_range e) es))"
  by (induction es arbitrary: out) (simp_all add: isValid_no_raise)

lemma finite_number_parsed:
  "finite_number_between lo hi v \<Longrightarrow> finite_between lo hi (parsed v)"
  by (cases "(lo, hi, v)" rule: finite_number_between.cases) (simp_all add: parsed_def)

lemma spec_valid_parses: "spec_valid_arc e \<Longrightarrow> parses_in_range e"
  by (cases e) (simp_all add: finite_number_parsed)

lemma numeric_parsed:
  "is_number v \<Longrightarrow> finite_between lo hi (parsed v) = finite_number_between lo hi v"
  by (cases "(lo, hi, v)" rule: finite_number_between.cases) (simp_all add: parsed_def)

lemma numeric_valid: "numeric_coordinates e \<Longrightarrow> parses_in_range e = spec_valid_arc e"
  by (cases e) (simp_all add: numeric_parsed)

text \<open>
  C6, as the code has it. Take a project array in which no entry makes the callback
  raise: no entry is \<^verbatim>\<open>null\<close>, and no coordinate is an object whose conversion to a string
  raises. Then \<^verbatim>\<open>loadProjectArcs\<close> raises nothing, and for every entry of the array:

    \<^item> it is among the arcs handed to the renderer if and only if \<^verbatim>\<open>parseFloat\<close> of each
      of its four coordinates is a finite number, with latitudes in [-90, 90] and
      longitudes in [-180, 180];

    \<^item> the call warns about it on the console if and only if that is not so;

    \<^item> an entry whose four coordinates are finite numbers in range passes that test;

    \<^item> for an entry whose four coordinates are numbers, the test is that they are finite
      and in range.
\<close>

theorem arc_rendered_iff_valid:
  assumes "e \<in> set legacyProjects" and "\<forall>x\<in>set legacyProjects. \<not> raises x"
  shows "fst (loadProjectArcs (ArrayOf legacyProjects) st) = None \<and>
         (e \<in> set (arcsData (snd (loadProjectArcs (ArrayOf legacyProjects) st)))
            \<longleftrightarrow> parses_in_range e) \<and>
         (Warn_invalid_arc e \<in> set (new_console_lines (ArrayOf legacyProjects) st)
            \<longleftrightarrow> \<not> parses_in_range e) \<and>
         (spec_valid_arc e \<longrightarrow> parses_in_range e) \<and>
         (numeric_coordinates e \<longrightarrow> (parses_in_range e \<longleftrightarrow> spec_valid_arc e))"
proof -
  from assms(1) have ne: "legacyProjects \<noteq> []"
    by auto
  with assms(2) have run: "loadProjectArcs (ArrayOf legacyProjects) st =
      (None, st\<lparr> arcsData := filter parses_in_range legacyProjects,
                 console := console st
                   @ map Warn_invalid_arc (filter (\<lambda>e. \<not> parses_in_range e) legacyProjects)
                   @ [Log_setting_arcs (length (filter parses_in_range legacyProjects))
                        (length legacyProjects)] \<rparr>)"
    by (simp add: loadProjectArcs_def filter_arcs_no_raise)
  then have "new_console_lines (ArrayOf legacyProjects) st
      = map Warn_invalid_arc (filter (\<lambda>e. \<not> parses_in_range e) legacyProjects)
        @ [Log_setting_arcs (length (filter parses_in_range legacyProjects))
             (length legacyProjects)]"
    by (simp add: new_console_lines_def)
  with run assms(1) show ?thesis
    by (auto simp add: spec_valid_parses numeric_valid)
qed

text \<open>
  An arc with start latitude 95 is excluded and warned about; the same arc with start
  latitude 28 is retained without a warning.
\<close>

theorem arc_rendered_iff_valid_witness:
  "fst (loadProjectArcs
          (ArrayOf [sample_arc (JNumber (Num 95)), sample_arc (JNumber (Num 28))]) empty_layer) = None \<and>
   sample_arc (JNumber (Num 95))
     \<notin> set (arcsData (snd (loadProjectArcs
          (ArrayOf [sample_arc (JNumber (Num 95)), sample_arc (JNumber (Num 28))]) empty_layer))) \<and>
   Warn_invalid_arc (sample_arc (JNumber (Num 95)))
     \<in> set (new_console_lines
          (ArrayOf [sample_arc (JNumber (Num 95)), sample_arc (JNumber (Num 28))]) empty_layer) \<and>
   sample_arc (JNumber (Num 28))
     \<in> set (arcsData (snd (loadProjectArcs
          (ArrayOf [sample_arc (JNumber (Num 95)), sample_arc (JNumber (Num 28))]) empty_layer))) \<and>
   Warn_invalid_arc (sample_arc (JNumber (Num 28)))
     \<notin> set (new_console_lines
          (ArrayOf [sample_arc (JNumber (Num 95)), sample_arc (JNumber (Num 28))]) empty_layer)"
proof -
  let ?es = "[sample_arc (JNumber (Num 95)), sample_arc (JNumber (Num 28))]"
  have quiet: "\<forall>x\<in>set ?es. \<not> raises x"
    by (simp add: sample_arc_def)
  have high: "\<not> parses_in_range (sample_arc (JNumber (Num 95)))"
    by (simp add: sample_arc_def parsed_def)
  have low: "parses_in_range (sample_arc (JNumber (Num 28)))"
    by (simp add: sample_arc_def parsed_def)
  have "sample_arc (JNumber (Num 95)) \<in> set ?es" and "sample_arc (JNumber (Num 28)) \<in> set ?es"
    by simp_all
  from arc_rendered_iff_valid [OF this(1) quiet, of empty_layer]
    arc_rendered_iff_valid [OF this(2) quiet, of empty_layer] high low
  show ?thesis
    by blast
qed

lemma parse_28_6: "parse_float ''28.6abc'' = Num (8050184333924762 / 2 ^ 48)"
proof -
  have "to_double (143 / 5) = Num (8050184333924762 / 2 ^ 48)"
    using to_double_eval(1) [of 4 "143 / 5"]
    by (simp add: round_half_even_def)
  then show ?thesis
    by (simp add: parse_float_def unsigned_literal_def is_space_def is_digit_def
        digits_value_def digit_value_def exponent_of_def Let_def)
qed

text \<open>
  Against C6 as stated. An entry whose start latitude is the string \<^verbatim>\<open>"28.6abc"\<close> is
  handed to the renderer, string and all, without a warning: \<^verbatim>\<open>parseFloat\<close> reads 28.6
  from it, though the coordinate is no finite number. A \<^verbatim>\<open>null\<close> entry in the array makes
  the call raise a \<^verbatim>\<open>TypeError\<close>, after which no arcs are set; so does a project list that
  is not an array.
\<close>

theorem unparsed_string_arc_rendered:
  "sample_arc (JString ''28.6abc'')
     \<in> set (arcsData (snd (loadProjectArcs (ArrayOf [sample_arc (JString ''28.6abc'')]) empty_layer))) \<and>
   new_console_lines (ArrayOf [sample_arc (JString ''28.6abc'')]) empty_layer = [Log_setting_arcs 1 1] \<and>
   \<not> spec_valid_arc (sample_arc (JString ''28.6abc'')) \<and>
   loadProjectArcs (ArrayOf [sample_arc (JNumber (Num 28)), NullEntry]) empty_layer
     = (Some TypeError, empty_layer) \<and>
   loadProjectArcs (NonArray False) empty_layer = (Some TypeError, empty_layer)"
proof -
  have "parses_in_range (sample_arc (JString ''28.6abc''))"
    by (simp add: sample_arc_def parsed_def parse_28_6)
  moreover have "\<not> raises (sample_arc (JString ''28.6abc''))"
    by (simp add: sample_arc_def)
  ultimately have "isValid (sample_arc (JString ''28.6abc'')) = Inr True"
    by (simp add: isValid_no_raise)
  moreover have "isValid (sample_arc (JNumber (Num 28))) = Inr True"
    by (simp add: isValid_no_raise sample_arc_def parsed_def)
  moreover have "isValid NullEntry = Inl TypeError"
    by (simp add: isValid_def parsed_property_def)
  moreover have "\<not> spec_valid_arc (sample_arc (JString ''28.6abc''))"
    by (simp add: sample_arc_def)
  ultimately show ?thesis
    by (simp add: loadProjectArcs_def new_console_lines_def empty_layer_def)
qed

section \<open>Properties of the country colours\<close>

lemma lerp_zero: "lerp c1 c2 0 = c1"
  by (simp add: lerp_def)

lemma lerp_one: "lerp c1 c2 1 = c2"
  by (simp add: lerp_def)

lemma channel_advance:
  fixes a b s t :: real
  assumes "s \<le> t"
  shows "0 \<le> ((b - a) * t - (b - a) * s) * (b - a)"
proof -
  have "((b - a) * t - (b - a) * s) * (b - a) = ((b - a) * (b - a)) * (t - s)"
    by (simp add: algebra_simps)
  moreover have "0 \<le> (b - a) * (b - a)"
    by simp
  moreover from assms have "0 \<le> t - s"
    by simp
  ultimately show ?thesis
    by (simp only: mult_nonneg_nonneg)
qed

lemma lerp_not_behind:
  "s \<le> t \<Longrightarrow> not_behind c1 c2 (lerp c1 c2 s) (lerp c1 c2 t)"
  by (simp add: not_behind_def lerp_def channel_advance)

lemma country_color_with_data:
  "isoCode \<noteq> ''IND'' \<Longrightarrow>
   getEnhancedCountryColor cs parse (m(isoCode \<mapsto> w)) isoCode
     = Color (lerp (parse (defaultCountry cs)) (parse (zyetaBlue cs)) (min (w / 10) 1))"
  by (simp add: getEnhancedCountryColor_def interpolateColor_def)

text \<open>
  C7. For a country other than the home country IND with an entry in the data map, the
  colour is the blend of the neutral colour towards the highlight colour by
  \<^verbatim>\<open>min(projectCount / 10, 1)\<close>. Weight 0 gives the neutral colour and every weight
  from the cap 10 on gives the highlight colour itself. For weights \<open>wa \<le> wb\<close> no channel
  of the colour of \<open>wb\<close> is behind that of \<open>wa\<close> on the way from neutral to highlight, and
  no channel is ever beyond the highlight. IND gets the accent colour whatever its
  weight.
\<close>

theorem country_color_monotone_saturating:
  assumes "isoCode \<noteq> ''IND''" and "wa \<le> wb"
  shows "getEnhancedCountryColor cs parse (m(isoCode \<mapsto> 0)) isoCode = Color (parse (defaultCountry cs)) \<and>
    (10 \<le> wb \<longrightarrow>
       getEnhancedCountryColor cs parse (m(isoCode \<mapsto> wb)) isoCode = Color (parse (zyetaBlue cs))) \<and>
    not_behind (parse (defaultCountry cs)) (parse (zyetaBlue cs))
      (rgb_of parse (getEnhancedCountryColor cs parse (m(isoCode \<mapsto> wa)) isoCode))
      (rgb_of parse (getEnhancedCountryColor cs parse (m(isoCode \<mapsto> wb)) isoCode)) \<and>
    not_behind (parse (defaultCountry cs)) (parse (zyetaBlue cs))
      (rgb_of parse (getEnhancedCountryColor cs parse (m(isoCode \<mapsto> wb)) isoCode))
      (parse (zyetaBlue cs)) \<and>
    getEnhancedCountryColor cs parse (m(''IND'' \<mapsto> wb)) ''IND'' = CssString (india cs)"
proof (intro conjI impI)
  show "getEnhancedCountryColor cs parse (m(isoCode \<mapsto> 0)) isoCode = Color (parse (defaultCountry cs))"
    using assms(1) by (simp add: country_color_with_data lerp_zero)
next
  assume "10 \<le> wb"
  then have "min (wb / 10) 1 = 1"
    by simp
  then show "getEnhancedCountryColor cs parse (m(isoCode \<mapsto> wb)) isoCode = Color (parse (zyetaBlue cs))"
    using assms(1) by (simp add: country_color_with_data lerp_one)
next
  from assms(2) have "min (wa / 10) 1 \<le> min (wb / 10) 1"
    by (simp add: min_def)
  then show "not_behind (parse (defaultCountry cs)) (parse (zyetaBlue cs))
      (rgb_of parse (getEnhancedCountryColor cs parse (m(isoCode \<mapsto> wa)) isoCode))
      (rgb_of parse (getEnhancedCountryColor cs parse (m(isoCode \<mapsto> wb)) isoCode))"
    using assms(1) by (simp add: country_color_with_data lerp_not_behind)
next
  have "min (wb / 10) 1 \<le> 1"
    by simp
  then have "not_behind (parse (defaultCountry cs)) (parse (zyetaBlue cs))
      (lerp (parse (defaultCountry cs)) (parse (zyetaBlue cs)) (min (wb / 10) 1))
      (lerp (parse (defaultCountry cs)) (parse (zyetaBlue cs)) 1)"
    by (rule lerp_not_behind)
  then show "not_behind (parse (defaultCountry cs)) (parse (zyetaBlue cs))
      (rgb_of parse (getEnhancedCountryColor cs parse (m(isoCode \<mapsto> wb)) isoCode))
      (parse (zyetaBlue cs))"
    using assms(1) by (simp add: country_color_with_data lerp_one)
next
  show "getEnhancedCountryColor cs parse (m(''IND'' \<mapsto> wb)) ''IND'' = CssString (india cs)"
    by (simp add: getEnhancedCountryColor_def)
qed

text \<open>
  With white as neutral and (0, 0.8, 1) as highlight: weight 0 gives white, weight 5 the
  midpoint, weight 25 the highlight, and IND gold.
\<close>

theorem country_color_monotone_saturating_witness:
  "getEnhancedCountryColor sample_colors sample_parse [''SGP'' \<mapsto> 0] ''SGP''
     = Color \<lparr> red = 1, green = 1, blue = 1 \<rparr> \<and>
   getEnhancedCountryColor sample_colors sample_parse [''SGP'' \<mapsto> 5] ''SGP''
     = Color \<lparr> red = 1/2, green = 9/10, blue = 1 \<rparr> \<and>
   getEnhancedCountryColor sample_colors sample_parse [''SGP'' \<mapsto> 25] ''SGP''
     = Color \<lparr> red = 0, green = 4/5, blue = 1 \<rparr> \<and>
   getEnhancedCountryColor sample_colors sample_parse [''IND'' \<mapsto> 25] ''IND'' = CssString ''gold''"
  using country_color_monotone_saturating
    [where isoCode = "''SGP''" and wa = 5 and wb = 25 and cs = sample_colors
       and parse = sample_parse and m = Map.empty]
  by (simp add: getEnhancedCountryColor_def interpolateColor_def lerp_def sample_colors_def sample_parse_def)

section \<open>Properties of pausing the render loop\<close>

lemma frames_of_append: "frames_of (xs @ ys) = frames_of xs @ frames_of ys"
  by (induction xs rule: frames_of.induct) (simp_all split: option.splits)

lemma delivered_emit_other:
  "name \<noteq> ''scene:animate'' \<Longrightarrow> delivered (scene_emit name payload s) = delivered s"
  by (simp add: delivered_def scene_emit_def frames_of_append)

lemma delivered_emit_frame:
  "delivered (scene_emit ''scene:animate'' (Some f) s) = delivered s @ [f]"
  by (simp add: delivered_def scene_emit_def frames_of_append)

lemma paused_frame:
  assumes "isAnimating s" and "isPaused s"
  shows "delivered (scene_animate rd s) = delivered s"
    and "scene_clock (scene_animate rd s) = scene_clock s"
    and "isAnimating (scene_animate rd s)" and "isPaused (scene_animate rd s)"
  using assms by (simp_all add: scene_animate_def Let_def delivered_def)

lemma paused_frames:
  "isAnimating s \<Longrightarrow> isPaused s \<Longrightarrow>
   delivered (scene_frames rds s) = delivered s \<and> scene_clock (scene_frames rds s) = scene_clock s \<and>
   isAnimating (scene_frames rds s) \<and> isPaused (scene_frames rds s)"
proof (induction rds arbitrary: s)
  case Nil
  then show ?case by simp
next
  case (Cons rd rds)
  from Cons.IH [of "scene_animate rd s"] Cons.prems show ?case
    by (simp add: paused_frame)
qed

lemma paused_frame_write:
  "isAnimating s \<Longrightarrow> isPaused s \<Longrightarrow>
   scene_animate rd s = s\<lparr> animationId := Some (next_raf s), next_raf := Suc (next_raf s) \<rparr>"
  by (simp add: scene_animate_def Let_def)

lemma paused_frames_write:
  "isAnimating s \<Longrightarrow> isPaused s \<Longrightarrow>
   (scene_frames rds s)\<lparr> animationId := animationId s, next_raf := next_raf s \<rparr> = s"
proof (induction rds arbitrary: s)
  case Nil
  then show ?case by simp
next
  case (Cons rd rds)
  let ?s = "s\<lparr> animationId := Some (next_raf s), next_raf := Suc (next_raf s) \<rparr>"
  from Cons.prems have step: "scene_animate rd s = ?s"
    by (rule paused_frame_write)
  from Cons.prems have "isAnimating ?s" "isPaused ?s"
    by simp_all
  then have "(scene_frames rds ?s)\<lparr> animationId := animationId ?s, next_raf := next_raf ?s \<rparr> = ?s"
    by (rule Cons.IH)
  then have "((scene_frames rds ?s)\<lparr> animationId := animationId ?s, next_raf := next_raf ?s \<rparr>)
      \<lparr> animationId := animationId s, next_raf := next_raf s \<rparr>
      = ?s\<lparr> animationId := animationId s, next_raf := next_raf s \<rparr>"
    by simp
  then show ?case
    by (simp add: step)
qed

lemma updateStats_emitted:
  "frames_of (scene_emitted (updateStats now s)) = frames_of (scene_emitted s)"
  by (simp add: updateStats_def Let_def scene_emit_def frames_of_append)

lemma updateStats_clock: "scene_clock (updateStats now s) = scene_clock s"
  by (simp add: updateStats_def Let_def scene_emit_def)

lemma running_frame:
  assumes "isAnimating s" and "\<not> isPaused s" and "running (scene_clock s)"
  shows "delivered (scene_animate rd s)
     = delivered s @
       [\<lparr> deltaTime = (at_delta rd - oldTime (scene_clock s)) / 1000,
          elapsedTime = clock_elapsedTime (scene_clock s) + (at_delta rd - oldTime (scene_clock s)) / 1000
             + (at_elapsed rd - at_delta rd) / 1000,
          currentTime = at_current rd \<rparr>]"
  using assms
  by (simp add: scene_animate_def Let_def getDelta_def getElapsedTime_def updateStats_clock
      updateStats_emitted delivered_def scene_emit_def frames_of_append split: prod.splits)

lemma resume_fields:
  "isAnimating (resume now s) = isAnimating s" "\<not> isPaused (resume now s)"
  "running (scene_clock (resume now s))" "oldTime (scene_clock (resume now s)) = now"
  "clock_elapsedTime (scene_clock (resume now s)) = 0"
  "delivered (resume now s) = delivered s"
  by (simp_all add: resume_def scene_emit_def clock_start_def delivered_def frames_of_append)

lemma pause_fields:
  "isAnimating (pause s) = isAnimating s" "isPaused (pause s)"
  "scene_clock (pause s) = scene_clock s" "delivered (pause s) = delivered s"
  by (simp_all add: pause_def scene_emit_def delivered_def frames_of_append)

text \<open>
  C9, as the code has it. Take an application whose loop is running, pause it, let the
  display refresh any number of times, resume it at time \<open>tr\<close> and let one frame run.
  Then:

    \<^item> while paused no frame is delivered and the clock is not touched;

    \<^item> \<^verbatim>\<open>resume\<close> calls \<^verbatim>\<open>clock.start()\<close>, which sets the clock's base to \<open>tr\<close> and its
      elapsed time to 0: the first frame after it has a \<^verbatim>\<open>deltaTime\<close> that covers only the
      time since \<open>tr\<close>, and an \<^verbatim>\<open>elapsedTime\<close> counted from \<open>tr\<close>, not from the value
      before the pause;

    \<^item> \<^verbatim>\<open>pause\<close> writes the \<^verbatim>\<open>isPaused\<close> flag and emits \<^verbatim>\<open>scene:paused\<close>, and nothing else;

    \<^item> \<^verbatim>\<open>resume\<close> writes the flag and the clock and emits \<^verbatim>\<open>scene:resumed\<close>, and nothing
      else;

    \<^item> the frames in between write only the handle of the next animation frame;

    \<^item> \<^verbatim>\<open>App.pause()\<close> and \<^verbatim>\<open>App.resume()\<close> do that to the Scene and leave the Globe with
      its tweens and the Controls as they were.
\<close>

theorem pause_resume_restarts_clock:
  assumes "isAnimating s" and "app_scene a = Some s"
  shows "delivered (scene_frames rds (pause s)) = delivered s \<and>
         scene_clock (scene_frames rds (pause s)) = scene_clock s \<and>
         delivered (scene_animate rd (resume tr (scene_frames rds (pause s))))
           = delivered s @
             [\<lparr> deltaTime = (at_delta rd - tr) / 1000,
                elapsedTime = (at_elapsed rd - tr) / 1000,
                currentTime = at_current rd \<rparr>] \<and>
         pause s = s\<lparr> isPaused := True,
                        scene_emitted := scene_emitted s @ [(''scene:paused'', None)] \<rparr> \<and>
         resume tr (scene_frames rds (pause s))
           = (scene_frames rds (pause s))
               \<lparr> isPaused := False,
                 scene_clock := clock_start tr (scene_clock s),
                 scene_emitted := scene_emitted (scene_frames rds (pause s)) @ [(''scene:resumed'', None)] \<rparr> \<and>
         (scene_frames rds (pause s))
             \<lparr> animationId := animationId s, next_raf := next_raf s \<rparr> = pause s \<and>
         app_scene (app_resume tr (app_pause a)) = Some (resume tr (pause s)) \<and>
         app_globe (app_resume tr (app_pause a)) = app_globe a \<and>
         app_controls (app_resume tr (app_pause a)) = app_controls a"
proof -
  let ?p = "scene_frames rds (pause s)"
  have p: "delivered ?p = delivered s" "scene_clock ?p = scene_clock s" "isAnimating ?p"
    using paused_frames [of "pause s" rds] assms(1) by (simp_all add: pause_fields)
  have "delivered (scene_animate rd (resume tr ?p))
      = delivered (resume tr ?p) @
        [\<lparr> deltaTime = (at_delta rd - oldTime (scene_clock (resume tr ?p))) / 1000,
           elapsedTime = clock_elapsedTime (scene_clock (resume tr ?p))
             + (at_delta rd - oldTime (scene_clock (resume tr ?p))) / 1000
             + (at_elapsed rd - at_delta rd) / 1000,
           currentTime = at_current rd \<rparr>]"
    using p(3) by (intro running_frame) (simp_all add: resume_fields)
  moreover have "(at_delta rd - tr) / 1000 + (at_elapsed rd - at_delta rd) / 1000 = (at_elapsed rd - tr) / 1000"
    by (simp add: field_simps)
  ultimately have frame: "delivered (scene_animate rd (resume tr ?p))
      = delivered s @
        [\<lparr> deltaTime = (at_delta rd - tr) / 1000,
           elapsedTime = (at_elapsed rd - tr) / 1000,
           currentTime = at_current rd \<rparr>]"
    using p by (simp add: resume_fields)
  have wp: "pause s = s\<lparr> isPaused := True,
      scene_emitted := scene_emitted s @ [(''scene:paused'', None)] \<rparr>"
    by (simp add: pause_def scene_emit_def)
  have wr: "resume tr ?p = ?p\<lparr> isPaused := False,
      scene_clock := clock_start tr (scene_clock s),
      scene_emitted := scene_emitted ?p @ [(''scene:resumed'', None)] \<rparr>"
    using p(2) by (simp add: resume_def scene_emit_def)
  have "isAnimating (pause s)" "isPaused (pause s)"
    using assms(1) by (simp_all add: pause_fields)
  then have wf: "?p\<lparr> animationId := animationId (pause s), next_raf := next_raf (pause s) \<rparr> = pause s"
    by (rule paused_frames_write)
  have ids: "animationId (pause s) = animationId s" "next_raf (pause s) = next_raf s"
    by (simp_all add: pause_def scene_emit_def)
  have app: "app_scene (app_resume tr (app_pause a)) = Some (resume tr (pause s))"
    "app_globe (app_resume tr (app_pause a)) = app_globe a"
    "app_controls (app_resume tr (app_pause a)) = app_controls a"
    using assms(2) by (simp_all add: app_resume_def app_pause_def)
  from p(1,2) frame wp wr wf ids app show ?thesis
    by simp
qed

text \<open>
  The run \<open>paused_run\<close>: before the pause the loop has delivered frames with elapsed
  times 0 and 1; the frame 16 ms after the resume has \<^verbatim>\<open>deltaTime\<close> 0.016 and
  \<^verbatim>\<open>elapsedTime\<close> 0.016.
\<close>

theorem pause_resume_restarts_clock_witness:
  "isAnimating (scene_animate (at_time 1000) (scene_start 0 (at_time 0) new_scene)) \<and>
   delivered (scene_animate (at_time 1000) (scene_start 0 (at_time 0) new_scene))
     = [\<lparr> deltaTime = 0, elapsedTime = 0, currentTime = 0 \<rparr>,
        \<lparr> deltaTime = 1, elapsedTime = 1, currentTime = 1000 \<rparr>] \<and>
   delivered paused_run
     = [\<lparr> deltaTime = 0, elapsedTime = 0, currentTime = 0 \<rparr>,
        \<lparr> deltaTime = 1, elapsedTime = 1, currentTime = 1000 \<rparr>,
        \<lparr> deltaTime = 2/125, elapsedTime = 2/125, currentTime = 61016 \<rparr>]"
proof -
  let ?pre = "scene_animate (at_time 1000) (scene_start 0 (at_time 0) new_scene)"
  have running: "isAnimating ?pre"
    by code_simp
  have before: "delivered ?pre
      = [\<lparr> deltaTime = 0, elapsedTime = 0, currentTime = 0 \<rparr>,
         \<lparr> deltaTime = 1, elapsedTime = 1, currentTime = 1000 \<rparr>]"
    by code_simp
  let ?app = "\<lparr> app_scene = Some ?pre, app_globe = None, app_controls = None,
    app_emitted = [] \<rparr> :: nat app"
  have held: "app_scene ?app = Some ?pre"
    by simp
  from pause_resume_restarts_clock
    [OF running held, of "[at_time 2000, at_time 60000]" "at_time 61016" 61000]
  have "delivered paused_run
      = delivered ?pre @
        [\<lparr> deltaTime = (at_delta (at_time 61016) - 61000) / 1000,
           elapsedTime = (at_elapsed (at_time 61016) - 61000) / 1000,
           currentTime = at_current (at_time 61016) \<rparr>]"
    unfolding paused_run_def by (rule conjunct2 [THEN conjunct2, THEN conjunct1])
  then have "delivered paused_run
      = [\<lparr> deltaTime = 0, elapsedTime = 0, currentTime = 0 \<rparr>,
         \<lparr> deltaTime = 1, elapsedTime = 1, currentTime = 1000 \<rparr>,
         \<lparr> deltaTime = 2/125, elapsedTime = 2/125, currentTime = 61016 \<rparr>]"
    unfolding before by (simp add: at_time_def)
  with running before show ?thesis
    by simp
qed

text \<open>
  C9 as the spec states it (elapsed time continues from its value before the pause)
  fails on that run: the elapsed time falls from 1 to 0.016.
\<close>

theorem elapsed_time_restarts_after_resume:
  "map elapsedTime (delivered paused_run) = [0, 1, 2/125]"
  by code_simp

end
